theory Spec2Isabelle
  imports Main "HOL-Library.Word"
begin

unbundle bit_operations_syntax

section \<open>PhotoApp: the command handlers of \<^verbatim>\<open>main.py\<close>\<close>

text \<open>
  \<^verbatim>\<open>main.py\<close> is a script of seven command handlers and a command loop. Everything
  it does is an effect on the outside world: lines read from standard input, lines
  printed, statements sent to the database, objects put into and fetched from the
  bucket, files renamed. The model threads one record, the \<open>world\<close>, through every
  call; a handler is a function from the world to a result and the new world. A result
  is either a value or the reason the process stopped (\<^verbatim>\<open>os.abort()\<close> or an exception
  that nothing catches).
\<close>

subsection \<open>Python values\<close>

text \<open>
  The values the handlers hold are dynamically typed: the result of a query is
  \<^verbatim>\<open>None\<close>, the empty tuple \<^verbatim>\<open>()\<close>, or a tuple of columns; \<^verbatim>\<open>row[0]\<close> on each of
  them does something different. \<open>pyval\<close> keeps that distinction.
\<close>

type_synonym uuid = "128 word"

datatype pyval =
    PNone
  | PInt int
  | PStr string
  | PUuid uuid
  | PTuple "pyval list"

datatype pyexn =
    EOFError | ValueError | TypeError | IndexError | FileNotFoundError | IsADirectoryError
  | PermissionError | OSError | UnidentifiedImageError | StorageError

datatype stop = Abort | Raise pyexn

subsection \<open>The relational store\<close>

text \<open>
  The schema is the one the statements of \<^verbatim>\<open>main.py\<close> name:
  \<^verbatim>\<open>users(userid, email, lastname, firstname, bucketfolder)\<close> and
  \<^verbatim>\<open>assets(assetid, userid, assetname, bucketkey)\<close>. The identifiers are assigned by the
  store (the handlers read them back with \<^verbatim>\<open>LAST_INSERT_ID()\<close>).
\<close>

record user_row =
  userid :: int
  email :: string
  lastname :: string
  firstname :: string
  bucketfolder :: string

record asset_row =
  assetid :: int
  asset_userid :: int
  assetname :: string
  bucketkey :: string

text \<open>
  \<open>key_of\<close> is the store's reading of a text parameter as an integer key. The handlers
  pass the line the user typed, as a string, to \<^verbatim>\<open>where userid = %s\<close> and to
  \<^verbatim>\<open>values(%s, ...)\<close>; how the engine converts it is not written in this repository, so
  it is a parameter of the store. \<open>None\<close> means the text denotes no key.
\<close>

record database =
  users_tbl :: "user_row list"
  assets_tbl :: "asset_row list"
  users_auto :: int
  assets_auto :: int
  last_insert_id :: int
  key_of :: "string \<Rightarrow> int option"

text \<open>The eight statements of \<^verbatim>\<open>main.py\<close>, in the order they appear in the file.\<close>

datatype statement =
    CountUsersAssets
      \<comment> \<open>\<^verbatim>\<open>select (select count(*) from users) as s1, (select count(*) from assets) as s2;\<close>\<close>
  | AllUsersDesc
      \<comment> \<open>\<^verbatim>\<open>select * from users order by userid desc\<close>\<close>
  | AllAssetsDesc
      \<comment> \<open>\<^verbatim>\<open>select * from assets order by assetid desc\<close>\<close>
  | AssetById
      \<comment> \<open>\<^verbatim>\<open>select bucketkey, assetname from assets where assetid = %s\<close>\<close>
  | UserById
      \<comment> \<open>\<^verbatim>\<open>select * from users where userid = %s\<close>\<close>
  | InsertAsset
      \<comment> \<open>\<^verbatim>\<open>INSERT INTO assets(userid, assetname, bucketkey) values(%s, %s, %s)\<close>\<close>
  | LastInsertId
      \<comment> \<open>\<^verbatim>\<open>select LAST_INSERT_ID()\<close>\<close>
  | InsertUser
      \<comment> \<open>\<^verbatim>\<open>INSERT INTO users(email, lastname, firstname, bucketfolder) values(%s, %s, %s, %s)\<close>\<close>

subsection \<open>The world\<close>

datatype event =
    DbCall statement "pyval list"
  | S3List
  | S3Upload string string
  | S3Download string
  | OsRename string string
  | Display string

text \<open>
  \<open>stdin\<close> holds the lines still to be read and \<open>stdout\<close> the lines printed, each line
  as the list of the arguments of its \<^verbatim>\<open>print\<close>. \<open>bucket\<close> is the object store (key and
  content, one pair per key). \<open>files\<close> holds the local files and their contents, under
  the paths as the program writes them; a content is a name for a sequence of bytes.
  \<open>calls\<close> records every call that leaves the process, in order. \<open>db_faults\<close> is the
  environment's choice, for each coming call of the data tier, of whether its execution
  fails (an empty list means no further failure). \<open>uuid_src\<close> is the sequence of values
  \<^verbatim>\<open>uuid.uuid4()\<close> will return and \<open>tmp_src\<close> the sequence of temporary names the
  storage wrapper will pick.

  The rest of the machine is the environment's as well. \<open>cwd\<close> is the working
  directory of the process, an absolute path. \<open>os_refuses src dst\<close> is the error with
  which the operating system refuses to rename the existing file \<open>src\<close> to \<open>dst\<close>
  (\<^verbatim>\<open>IsADirectoryError\<close> when \<open>dst\<close> is a directory, \<^verbatim>\<open>FileNotFoundError\<close> when the
  directory of \<open>dst\<close> does not exist, \<^verbatim>\<open>PermissionError\<close>, \<^verbatim>\<open>OSError\<close> across
  devices), \<open>None\<close> when it allows it. \<open>decodes c\<close> says whether the bytes \<open>c\<close> are
  a picture the image library can read.
\<close>

record world =
  stdin :: "string list"
  stdout :: "pyval list list"
  db :: database
  db_faults :: "bool list"
  bucket :: "(string \<times> string) list"
  files :: "string \<Rightarrow> string option"
  calls :: "event list"
  uuid_src :: "nat \<Rightarrow> uuid"
  tmp_src :: "nat \<Rightarrow> string"
  cwd :: string
  os_refuses :: "string \<Rightarrow> string \<Rightarrow> pyexn option"
  decodes :: "string \<Rightarrow> bool"

type_synonym 'a proc = "world \<Rightarrow> (stop + 'a) \<times> world"

definition ret :: "'a \<Rightarrow> 'a proc" where
  "ret x w = (Inr x, w)"

definition raise :: "pyexn \<Rightarrow> 'a proc" where
  "raise e w = (Inl (Raise e), w)"

definition andthen :: "'a proc \<Rightarrow> ('a \<Rightarrow> 'b proc) \<Rightarrow> 'b proc" where
  "andthen m k w = (case m w of (Inl s, w') \<Rightarrow> (Inl s, w') | (Inr x, w') \<Rightarrow> k x w')"

definition next_do :: "unit proc \<Rightarrow> 'b proc \<Rightarrow> 'b proc" where
  "next_do m k = andthen m (\<lambda>_. k)"

definition is_storage_call :: "event \<Rightarrow> bool" where
  "is_storage_call e = (case e of S3List \<Rightarrow> True | S3Upload _ _ \<Rightarrow> True | S3Download _ \<Rightarrow> True | _ \<Rightarrow> False)"

subsection \<open>Builtins of the language and of \<^verbatim>\<open>os\<close>, \<^verbatim>\<open>uuid\<close>\<close>

definition print :: "pyval list \<Rightarrow> unit proc" where
  "print args w = (Inr (), w\<lparr>stdout := stdout w @ [args]\<rparr>)"

text \<open>\<^verbatim>\<open>input()\<close> raises \<^verbatim>\<open>EOFError\<close> at the end of the input.\<close>

definition input :: "string proc" where
  "input w = (case stdin w of
                [] \<Rightarrow> (Inl (Raise EOFError), w)
              | l # ls \<Rightarrow> (Inr l, w\<lparr>stdin := ls\<rparr>))"

text \<open>
  \<^verbatim>\<open>int(s)\<close> on a string, base ten: surrounding white space is dropped, then an optional
  sign, then digits, single underscores allowed between digits; anything else is a
  \<^verbatim>\<open>ValueError\<close>. Lines are taken as ASCII, where the white space \<^verbatim>\<open>int\<close> drops is the
  characters 9 to 13 and the blank; white space and digits beyond ASCII and the
  interpreter's limit on the number of digits are not modelled.
\<close>

definition is_space :: "char \<Rightarrow> bool" where
  "is_space c = ((of_char c :: nat) \<in> {9, 10, 11, 12, 13, 32})"

definition strip :: "string \<Rightarrow> string" where
  "strip s = rev (dropWhile is_space (rev (dropWhile is_space s)))"

definition digit_of :: "char \<Rightarrow> nat option" where
  "digit_of c = (let n = (of_char c :: nat) in if 48 \<le> n \<and> n \<le> 57 then Some (n - 48) else None)"

fun py_digits :: "nat \<Rightarrow> string \<Rightarrow> nat option" where
  "py_digits acc [] = Some acc"
| "py_digits acc [c] = (case digit_of c of None \<Rightarrow> None | Some v \<Rightarrow> Some (10 * acc + v))"
| "py_digits acc (c # d # cs) =
     (if c = CHR ''_''
      then (case digit_of d of None \<Rightarrow> None | Some v \<Rightarrow> py_digits (10 * acc + v) cs)
      else (case digit_of c of None \<Rightarrow> None | Some v \<Rightarrow> py_digits (10 * acc + v) (d # cs)))"

definition py_nat :: "string \<Rightarrow> nat option" where
  "py_nat s = (case s of [] \<Rightarrow> None
               | c # cs \<Rightarrow> (case digit_of c of None \<Rightarrow> None | Some v \<Rightarrow> py_digits v cs))"

definition py_int :: "string \<Rightarrow> int option" where
  "py_int s = (case strip s of
                 [] \<Rightarrow> None
               | c # cs \<Rightarrow>
                   if c = CHR ''-'' then map_option (\<lambda>n. - int n) (py_nat cs)
                   else if c = CHR ''+'' then map_option int (py_nat cs)
                   else map_option int (py_nat (c # cs)))"

definition int_of_str :: "string \<Rightarrow> int proc" where
  "int_of_str s = (case py_int s of None \<Rightarrow> raise ValueError | Some n \<Rightarrow> ret n)"

text \<open>
  \<^verbatim>\<open>v[i]\<close>: \<^verbatim>\<open>None\<close> and integers are not subscriptable (\<^verbatim>\<open>TypeError\<close>), a tuple is
  indexed or raises \<^verbatim>\<open>IndexError\<close>. The handlers only use constant indices from 0 to 4.
\<close>

definition subscript :: "pyval \<Rightarrow> nat \<Rightarrow> pyval proc" where
  "subscript v i =
     (case v of
        PTuple xs \<Rightarrow> if i < length xs then ret (xs ! i) else raise IndexError
      | PStr s \<Rightarrow> if i < length s then ret (PStr [s ! i]) else raise IndexError
      | _ \<Rightarrow> raise TypeError)"

text \<open>\<^verbatim>\<open>v + '...'\<close> with a string on the right: defined on strings only.\<close>

definition str_add :: "pyval \<Rightarrow> string \<Rightarrow> string proc" where
  "str_add v t = (case v of PStr s \<Rightarrow> ret (s @ t) | _ \<Rightarrow> raise TypeError)"

text \<open>A value handed to a wrapper that takes a path or a key must be a string.\<close>

definition as_str :: "pyval \<Rightarrow> string proc" where
  "as_str v = (case v of PStr s \<Rightarrow> ret s | _ \<Rightarrow> raise TypeError)"

definition uuid4 :: "uuid proc" where
  "uuid4 w = (Inr (uuid_src w 0), w\<lparr>uuid_src := (\<lambda>n. uuid_src w (Suc n))\<rparr>)"

text \<open>\<^verbatim>\<open>str(u)\<close> of a UUID: 32 lower-case hexadecimal digits, grouped 8-4-4-4-12.\<close>

definition hex_digit :: "nat \<Rightarrow> char" where
  "hex_digit n = ''0123456789abcdef'' ! n"

definition hex32 :: "uuid \<Rightarrow> string" where
  "hex32 u = map (\<lambda>i. hex_digit (unat (drop_bit (4 * (31 - i)) u AND 15))) [0..<32]"

definition str_uuid :: "uuid \<Rightarrow> string" where
  "str_uuid u =
     (let h = hex32 u
      in take 8 h @ ''-'' @ take 4 (drop 8 h) @ ''-'' @ take 4 (drop 12 h) @ ''-''
         @ take 4 (drop 16 h) @ ''-'' @ drop 20 h)"

definition os_path_exists :: "string \<Rightarrow> bool proc" where
  "os_path_exists p w = (Inr (files w p \<noteq> None), w)"

definition os_abort :: "'a proc" where
  "os_abort w = (Inl Abort, w)"

text \<open>
  \<^verbatim>\<open>os.rename(src, dst)\<close>, as on POSIX: a missing source raises; when the operating
  system refuses the destination the call raises its error and no file has moved; when
  it allows it, the file takes the new name, and a file that had that name is replaced
  without a word.
\<close>

definition os_rename :: "string \<Rightarrow> string \<Rightarrow> unit proc" where
  "os_rename src dst w =
     (let w1 = w\<lparr>calls := calls w @ [OsRename src dst]\<rparr>
      in case files w src of
           None \<Rightarrow> (Inl (Raise FileNotFoundError), w1)
         | Some c \<Rightarrow>
             (case os_refuses w src dst of
                Some e \<Rightarrow> (Inl (Raise e), w1)
              | None \<Rightarrow> (Inr (), w1\<lparr>files := ((files w)(src := None))(dst \<mapsto> c)\<rparr>)))"

text \<open>
  Paths, as \<^verbatim>\<open>posixpath\<close> reads them and without normalising \<^verbatim>\<open>.\<close>, \<^verbatim>\<open>..\<close> or doubled
  slashes: \<open>dirname\<close> is the part before the last slash (the root for a file of the
  root, empty when there is no slash); a path is absolute when it starts with a slash,
  and a relative one is resolved against the working directory. \<open>in_cwd w p\<close> says that
  the file \<open>p\<close> names lies in the working directory itself.
\<close>

definition dirname :: "string \<Rightarrow> string" where
  "dirname p =
     (let d = rev (dropWhile (\<lambda>c. c \<noteq> CHR ''/'') (rev p));
          h = rev (dropWhile (\<lambda>c. c = CHR ''/'') (rev d))
      in if h = [] then d else h)"




subsection \<open>The data tier\<close>

definition user_tuple :: "user_row \<Rightarrow> pyval" where
  "user_tuple u =
     PTuple [PInt (userid u), PStr (email u), PStr (lastname u), PStr (firstname u),
             PStr (bucketfolder u)]"

definition asset_tuple :: "asset_row \<Rightarrow> pyval" where
  "asset_tuple a =
     PTuple [PInt (assetid a), PInt (asset_userid a), PStr (assetname a), PStr (bucketkey a)]"

text \<open>
  What the store answers to each of the five queries: the rows, in order, or \<open>None\<close>
  when the statement cannot be executed with these parameters.
\<close>

definition select_rows :: "database \<Rightarrow> statement \<Rightarrow> pyval list \<Rightarrow> pyval list option" where
  "select_rows d sql params =
     (case sql of
        CountUsersAssets \<Rightarrow>
          Some [PTuple [PInt (int (length (users_tbl d))), PInt (int (length (assets_tbl d)))]]
      | AllUsersDesc \<Rightarrow> Some (map user_tuple (rev (sort_key userid (users_tbl d))))
      | AllAssetsDesc \<Rightarrow> Some (map asset_tuple (rev (sort_key assetid (assets_tbl d))))
      | AssetById \<Rightarrow>
          (case params of
             [PStr s] \<Rightarrow>
               Some (map (\<lambda>a. PTuple [PStr (bucketkey a), PStr (assetname a)])
                       (filter (\<lambda>a. key_of d s = Some (assetid a)) (assets_tbl d)))
           | _ \<Rightarrow> None)
      | UserById \<Rightarrow>
          (case params of
             [PStr s] \<Rightarrow>
               Some (map user_tuple (filter (\<lambda>u. key_of d s = Some (userid u)) (users_tbl d)))
           | _ \<Rightarrow> None)
      | LastInsertId \<Rightarrow> Some [PTuple [PInt (last_insert_id d)]]
      | _ \<Rightarrow> None)"

text \<open>
  The two inserts: the new row takes the next identifier of its table, which becomes the
  value of \<^verbatim>\<open>LAST_INSERT_ID()\<close>; the result is the number of rows affected.
\<close>

definition apply_action :: "database \<Rightarrow> statement \<Rightarrow> pyval list \<Rightarrow> (int \<times> database) option" where
  "apply_action d sql params =
     (case sql of
        InsertAsset \<Rightarrow>
          (case params of
             [PStr i, PStr n, PStr k] \<Rightarrow>
               (case key_of d i of
                  None \<Rightarrow> None
                | Some u \<Rightarrow>
                    Some (1, d\<lparr>assets_tbl := assets_tbl d @
                                   [\<lparr>assetid = assets_auto d, asset_userid = u,
                                     assetname = n, bucketkey = k\<rparr>],
                                assets_auto := assets_auto d + 1,
                                last_insert_id := assets_auto d\<rparr>))
           | _ \<Rightarrow> None)
      | InsertUser \<Rightarrow>
          (case params of
             [PStr e, PStr l, PStr f, PUuid g] \<Rightarrow>
               Some (1, d\<lparr>users_tbl := users_tbl d @
                              [\<lparr>userid = users_auto d, email = e, lastname = l,
                                firstname = f, bucketfolder = str_uuid g\<rparr>],
                           users_auto := users_auto d + 1,
                           last_insert_id := users_auto d\<rparr>)
           | _ \<Rightarrow> None)
      | _ \<Rightarrow> None)"

text \<open>
  Whether the coming call fails in execution: the head of the environment's schedule.
\<close>

definition call_fails :: "world \<Rightarrow> bool" where
  "call_fails w = (case db_faults w of [] \<Rightarrow> False | f # _ \<Rightarrow> f)"

definition db_called :: "statement \<Rightarrow> pyval list \<Rightarrow> world \<Rightarrow> world" where
  "db_called sql params w =
     w\<lparr>calls := calls w @ [DbCall sql params], db_faults := tl (db_faults w)\<rparr>"

text \<open>
  Modelled from the spec: \<^verbatim>\<open>datatier.retrieve_one_row\<close>, whose module is not among the
  sources. It executes a query expected to return zero or one row and returns an absent
  value (\<^verbatim>\<open>None\<close>) on execution failure, an empty marker (\<^verbatim>\<open>()\<close>) when no row matched,
  or the row otherwise.
\<close>

definition retrieve_one_row :: "statement \<Rightarrow> pyval list \<Rightarrow> pyval proc" where
  "retrieve_one_row sql params w =
     (let w1 = db_called sql params w
      in if call_fails w then (Inr PNone, w1)
         else case select_rows (db w) sql params of
                None \<Rightarrow> (Inr PNone, w1)
              | Some [] \<Rightarrow> (Inr (PTuple []), w1)
              | Some (r # _) \<Rightarrow> (Inr r, w1))"

text \<open>
  Modelled from the spec: \<^verbatim>\<open>datatier.retrieve_all_rows\<close>, whose module is not among the
  sources. The same three-way contract for queries of many rows: \<^verbatim>\<open>None\<close> on execution
  failure, the empty sequence when no row matched, the sequence of rows otherwise.
\<close>

definition retrieve_all_rows :: "statement \<Rightarrow> pyval list \<Rightarrow> pyval proc" where
  "retrieve_all_rows sql params w =
     (let w1 = db_called sql params w
      in if call_fails w then (Inr PNone, w1)
         else case select_rows (db w) sql params of
                None \<Rightarrow> (Inr PNone, w1)
              | Some rs \<Rightarrow> (Inr (PTuple rs), w1))"

text \<open>
  Modelled from the spec: \<^verbatim>\<open>datatier.perform_action\<close>, whose module is not among the
  sources. It executes an insert or update and returns the number of rows affected, or
  an absent value (\<^verbatim>\<open>None\<close>) on failure; a failed statement changes no table.
\<close>

definition perform_action :: "statement \<Rightarrow> pyval list \<Rightarrow> pyval proc" where
  "perform_action sql params w =
     (let w1 = db_called sql params w
      in if call_fails w then (Inr PNone, w1)
         else case apply_action (db w) sql params of
                None \<Rightarrow> (Inr PNone, w1)
              | Some (n, d') \<Rightarrow> (Inr (PInt n), w1\<lparr>db := d'\<rparr>))"

subsection \<open>The object store\<close>

text \<open>\<^verbatim>\<open>list(bucket.objects.all())\<close>: one call to the store, the keys it holds.\<close>

definition list_objects :: "string list proc" where
  "list_objects w = (Inr (map fst (bucket w)), w\<lparr>calls := calls w @ [S3List]\<rparr>)"

text \<open>
  Modelled from the spec: \<^verbatim>\<open>awsutil.upload_file\<close>, whose module is not among the sources.
  It sends the bytes of the local file to the given key of the bucket, replacing without
  a word what the key held, and returns the key. (The spec does not say what happens
  when the local file is missing; the model raises.)
\<close>

definition upload_file :: "string \<Rightarrow> string \<Rightarrow> string proc" where
  "upload_file local_path key w =
     (let w1 = w\<lparr>calls := calls w @ [S3Upload local_path key]\<rparr>
      in case files w local_path of
           None \<Rightarrow> (Inl (Raise FileNotFoundError), w1)
         | Some c \<Rightarrow>
             (Inr key, w1\<lparr>bucket := (key, c) # filter (\<lambda>kv. fst kv \<noteq> key) (bucket w)\<rparr>))"

text \<open>
  Modelled from the spec: \<^verbatim>\<open>awsutil.download_file\<close>, whose module is not among the
  sources. It fetches the object to a temporary file whose name it generates itself, and
  returns that name. (The spec does not say what happens when the bucket has no such
  key; the model raises.)
\<close>

definition download_file :: "string \<Rightarrow> string proc" where
  "download_file key w =
     (let w1 = w\<lparr>calls := calls w @ [S3Download key]\<rparr>
      in case map_of (bucket w) key of
           None \<Rightarrow> (Inl (Raise StorageError), w1)
         | Some c \<Rightarrow>
             (Inr (tmp_src w 0),
              w1\<lparr>files := (files w)(tmp_src w 0 \<mapsto> c),
                 tmp_src := (\<lambda>n. tmp_src w (Suc n))\<rparr>))"

text \<open>
  \<^verbatim>\<open>img.imread(p); plt.imshow(image); plt.show()\<close>: the file is read, decoded and
  shown. A missing file raises, and so does a file whose bytes are not a picture.
\<close>

definition display_image :: "string \<Rightarrow> unit proc" where
  "display_image p w =
     (let w1 = w\<lparr>calls := calls w @ [Display p]\<rparr>
      in case files w p of
           None \<Rightarrow> (Inl (Raise FileNotFoundError), w1)
         | Some c \<Rightarrow>
             if decodes w c then (Inr (), w1) else (Inl (Raise UnidentifiedImageError), w1))"

subsection \<open>The handlers\<close>

text \<open>
  Each handler follows its \<^verbatim>\<open>def\<close> statement by statement. \<open>dbConn\<close> and \<open>bucket\<close>, the
  two handles every handler is given, are the \<open>db\<close> and \<open>bucket\<close> of the world.
\<close>

definition prompt :: "int proc" where
  "prompt =
     next_do (print [])
    (next_do (print [PStr ''>> Enter a command:''])
    (next_do (print [PStr ''   0 => end''])
    (next_do (print [PStr ''   1 => stats''])
    (next_do (print [PStr ''   2 => users''])
    (next_do (print [PStr ''   3 => assets''])
    (next_do (print [PStr ''   4 => download''])
    (next_do (print [PStr ''   5 => download and display''])
    (next_do (print [PStr ''   6 => upload''])
    (next_do (print [PStr ''   7 => add user''])
    (andthen input int_of_str))))))))))"

definition stats :: "string \<Rightarrow> string \<Rightarrow> unit proc" where
  "stats bucketname endpoint =
     next_do (print [PStr ''S3 bucket name:'', PStr bucketname])
    (andthen list_objects (\<lambda>assets.
     next_do (print [PStr ''S3 assets:'', PInt (int (length assets))])
    (next_do (print [PStr ''RDS MySQL endpoint:'', PStr endpoint])
    (andthen (retrieve_one_row CountUsersAssets []) (\<lambda>row.
       if row = PNone then print [PStr ''Database operation failed...'']
       else if row = PTuple [] then print [PStr ''Unexpected query failure...'']
       else andthen (subscript row 0) (\<lambda>r0.
            next_do (print [PStr ''# of users:'', r0])
           (andthen (subscript row 1) (\<lambda>r1.
            print [PStr ''# of assets:'', r1]))))))))"

text \<open>\<^verbatim>\<open>len(rows)\<close> and \<^verbatim>\<open>for i in range(n)\<close>.\<close>

definition py_len :: "pyval \<Rightarrow> nat proc" where
  "py_len v = (case v of PTuple xs \<Rightarrow> ret (length xs) | PStr s \<Rightarrow> ret (length s)
               | _ \<Rightarrow> raise TypeError)"

fun for_range :: "nat list \<Rightarrow> (nat \<Rightarrow> unit proc) \<Rightarrow> unit proc" where
  "for_range [] body = ret ()"
| "for_range (i # js) body = next_do (body i) (for_range js body)"

text \<open>\<^verbatim>\<open>rows[i][k]\<close>.\<close>

definition cell :: "pyval \<Rightarrow> nat \<Rightarrow> nat \<Rightarrow> pyval proc" where
  "cell rows i k = andthen (subscript rows i) (\<lambda>r. subscript r k)"

definition users_body :: "pyval \<Rightarrow> nat \<Rightarrow> unit proc" where
  "users_body rows i =
     andthen (cell rows i 0) (\<lambda>c0.
     next_do (print [PStr ''User id:'', c0])
    (andthen (cell rows i 1) (\<lambda>c1.
     next_do (print [PStr ''  Email:'', c1])
    (andthen (cell rows i 2) (\<lambda>c2.
     andthen (cell rows i 3) (\<lambda>c3.
     next_do (print [PStr ''  Name:'', c2, PStr '','', c3])
    (andthen (cell rows i 4) (\<lambda>c4.
     print [PStr ''  Folder:'', c4]))))))))"

definition users :: "unit proc" where
  "users =
     andthen (retrieve_all_rows AllUsersDesc []) (\<lambda>rows.
       if rows = PNone then print [PStr ''Database operation failed...'']
       else if rows = PTuple [] then print [PStr ''Unexpected query failure...'']
       else andthen (py_len rows) (\<lambda>n. for_range [0..<n] (users_body rows)))"

definition assets_body :: "pyval \<Rightarrow> nat \<Rightarrow> unit proc" where
  "assets_body rows i =
     andthen (cell rows i 0) (\<lambda>c0.
     next_do (print [PStr ''Asset id:'', c0])
    (andthen (cell rows i 1) (\<lambda>c1.
     next_do (print [PStr ''  User id:'', c1])
    (andthen (cell rows i 2) (\<lambda>c2.
     next_do (print [PStr ''  Original name:'', c2])
    (andthen (cell rows i 3) (\<lambda>c3.
     print [PStr ''  Key name:'', c3])))))))"

definition assets :: "unit proc" where
  "assets =
     andthen (retrieve_all_rows AllAssetsDesc []) (\<lambda>rows.
       if rows = PNone then print [PStr ''Database operation failed...'']
       else if rows = PTuple [] then print [PStr ''Unexpected query failure...'']
       else andthen (py_len rows) (\<lambda>n. for_range [0..<n] (assets_body rows)))"

text \<open>The apostrophe of the messages that quote a name.\<close>

definition quote :: string where
  "quote = [CHR 0x27]"

definition download :: "bool \<Rightarrow> unit proc" where
  "download display =
     next_do (print [PStr ''Enter asset id>''])
    (andthen input (\<lambda>s.
     andthen (retrieve_one_row AssetById [PStr s]) (\<lambda>row.
       if row = PNone then print [PStr ''Database operation failed...'']
       else if row = PTuple [] then print [PStr ''No such asset...'']
       else andthen (subscript row 0) (\<lambda>r0.
            andthen (as_str r0) (\<lambda>key.
            andthen (download_file key) (\<lambda>filename.
            andthen (subscript row 1) (\<lambda>r1.
            andthen (as_str r1) (\<lambda>name.
            next_do (os_rename filename name)
           (andthen (subscript row 1) (\<lambda>r1'.
            next_do (print [PStr (''Downloaded from S3 and saved as '' @ quote), r1',
                            PStr quote])
           (if display = True
            then andthen (subscript row 1) (\<lambda>r1''.
                 andthen (as_str r1'') display_image)
            else ret ())))))))))))"

definition upload :: "unit proc" where
  "upload =
     next_do (print [PStr ''Enter local file name>''])
    (andthen input (\<lambda>s.
     andthen (os_path_exists s) (\<lambda>ex.
     next_do (if ex = False
              then next_do (print [PStr (''Local file '' @ quote), PStr s,
                                   PStr (quote @ '' does not exist...'')])
                   os_abort
              else ret ())
    (next_do (print [PStr ''Enter user id>''])
    (andthen input (\<lambda>id.
     andthen (retrieve_one_row UserById [PStr id]) (\<lambda>row1.
     next_do (if row1 = PNone \<or> row1 = PTuple []
              then next_do (print [PStr ''No such user...'']) os_abort
              else ret ())
    (andthen (subscript row1 4) (\<lambda>folder.
     andthen (str_add folder ''/'') (\<lambda>prefix.
     andthen uuid4 (\<lambda>u.
     andthen (upload_file s (prefix @ str_uuid u @ ''.jpg'')) (\<lambda>key.
     next_do (print [PStr (''Uploaded and stored in S3 as '' @ quote), PStr key, PStr quote])
    (andthen (perform_action InsertAsset [PStr id, PStr s, PStr key]) (\<lambda>row2.
     andthen (retrieve_one_row LastInsertId []) (\<lambda>row3.
     andthen (subscript row3 0) (\<lambda>r.
     print [PStr ''Recorded in RDS under asset id'', r]))))))))))))))))"

definition adduser :: "unit proc" where
  "adduser =
     next_do (print [PStr (''Enter user'' @ quote @ ''s email>'')])
    (andthen input (\<lambda>email.
     next_do (print [PStr (''Enter user'' @ quote @ ''s last (family) name>'')])
    (andthen input (\<lambda>ln.
     next_do (print [PStr (''Enter user'' @ quote @ ''s first (given) name>'')])
    (andthen input (\<lambda>fn.
     andthen uuid4 (\<lambda>folder.
     andthen (perform_action InsertUser [PStr email, PStr ln, PStr fn, PUuid folder]) (\<lambda>row1.
     andthen (retrieve_one_row LastInsertId []) (\<lambda>row2.
     andthen (subscript row2 0) (\<lambda>r.
     print [PStr ''Recorded in RDS under asset id'', r]))))))))))"

subsection \<open>The command loop\<close>

text \<open>
  The body of the \<^verbatim>\<open>while\<close>, up to the next \<^verbatim>\<open>prompt()\<close>: the chain of comparisons
  of \<open>cmd\<close>. \<open>bucketname\<close> and \<open>endpoint\<close> are the two settings \<open>stats\<close> prints.
\<close>

definition dispatch :: "string \<Rightarrow> string \<Rightarrow> int \<Rightarrow> unit proc" where
  "dispatch bucketname endpoint cmd =
     (if cmd = 1 then stats bucketname endpoint
      else if cmd = 2 then users
      else if cmd = 3 then assets
      else if cmd = 4 then download False
      else if cmd = 5 then download True
      else if cmd = 6 then upload
      else if cmd = 7 then adduser
      else print [PStr ''** Unknown command, try again...''])"

text \<open>
  The loop reads a command after each handler. It ends when the command is 0, when a
  handler stops the process, or when \<^verbatim>\<open>prompt()\<close> raises; as every \<^verbatim>\<open>prompt()\<close>
  takes a line from the input and no handler gives one back, it always ends. The facts
  below say that no operation lengthens the input.
\<close>

definition keeps_input :: "'a proc \<Rightarrow> bool" where
  "keeps_input m = (\<forall>w r w'. m w = (r, w') \<longrightarrow> length (stdin w') \<le> length (stdin w))"

named_theorems ki

lemma ki_ret [ki]: "keeps_input (ret x)" by (simp add: keeps_input_def ret_def)
lemma ki_raise [ki]: "keeps_input (raise e)" by (simp add: keeps_input_def raise_def)
lemma ki_abort [ki]: "keeps_input os_abort" by (simp add: keeps_input_def os_abort_def)
lemma ki_print [ki]: "keeps_input (print a)" by (auto simp: keeps_input_def print_def)
lemma ki_input [ki]: "keeps_input input" by (auto simp: keeps_input_def input_def split: list.splits)
lemma ki_andthen [ki]: "keeps_input m \<Longrightarrow> (\<And>x. keeps_input (k x)) \<Longrightarrow> keeps_input (andthen m k)"
  unfolding keeps_input_def andthen_def
  by (auto split: prod.splits sum.splits) (meson order_trans)
lemma ki_next_do [ki]: "keeps_input m \<Longrightarrow> keeps_input k \<Longrightarrow> keeps_input (next_do m k)"
  by (simp add: next_do_def ki_andthen)
lemma ki_if [ki]: "keeps_input a \<Longrightarrow> keeps_input b \<Longrightarrow> keeps_input (if c then a else b)" by simp
lemma ki_int_of_str [ki]: "keeps_input (int_of_str s)" by (simp add: int_of_str_def ki split: option.splits)
lemma ki_subscript [ki]: "keeps_input (subscript v i)" by (simp add: subscript_def ki split: pyval.splits)
lemma ki_str_add [ki]: "keeps_input (str_add v t)" by (simp add: str_add_def ki split: pyval.splits)
lemma ki_as_str [ki]: "keeps_input (as_str v)" by (simp add: as_str_def ki split: pyval.splits)
lemma ki_py_len [ki]: "keeps_input (py_len v)" by (simp add: py_len_def ki split: pyval.splits)
lemma ki_uuid4 [ki]: "keeps_input uuid4" by (auto simp: keeps_input_def uuid4_def)
lemma ki_exists [ki]: "keeps_input (os_path_exists p)" by (auto simp: keeps_input_def os_path_exists_def)
lemma ki_rename [ki]: "keeps_input (os_rename a b)" by (auto simp: keeps_input_def os_rename_def Let_def split: option.splits)
lemma ki_one [ki]: "keeps_input (retrieve_one_row s p)"
  by (auto simp: keeps_input_def retrieve_one_row_def db_called_def Let_def split: option.splits list.splits if_splits)
lemma ki_all [ki]: "keeps_input (retrieve_all_rows s p)"
  by (auto simp: keeps_input_def retrieve_all_rows_def db_called_def Let_def split: option.splits list.splits if_splits)
lemma ki_act [ki]: "keeps_input (perform_action s p)"
  by (auto simp: keeps_input_def perform_action_def db_called_def Let_def split: option.splits list.splits if_splits)
lemma ki_list [ki]: "keeps_input list_objects" by (auto simp: keeps_input_def list_objects_def)
lemma ki_up [ki]: "keeps_input (upload_file a b)" by (auto simp: keeps_input_def upload_file_def Let_def split: option.splits)
lemma ki_down [ki]: "keeps_input (download_file a)" by (auto simp: keeps_input_def download_file_def Let_def split: option.splits)
lemma ki_disp [ki]: "keeps_input (display_image a)" by (auto simp: keeps_input_def display_image_def Let_def split: option.splits if_splits)
lemma ki_for [ki]: "(\<And>i. keeps_input (body i)) \<Longrightarrow> keeps_input (for_range js body)"
  by (induction js) (simp_all add: ki)
lemma ki_cell [ki]: "keeps_input (cell r i k)" by (simp add: cell_def ki)

lemma ki_stats: "keeps_input (stats b e)" unfolding stats_def by (intro ki)
lemma ki_users: "keeps_input users" unfolding users_def users_body_def by (intro ki)
lemma ki_assets: "keeps_input assets" unfolding assets_def assets_body_def by (intro ki)
lemma ki_download: "keeps_input (download d)" unfolding download_def by (intro ki)
lemma ki_upload: "keeps_input upload" unfolding upload_def by (intro ki)
lemma ki_adduser: "keeps_input adduser" unfolding adduser_def by (intro ki)
lemma ki_dispatch: "keeps_input (dispatch b e c)"
  unfolding dispatch_def by (intro ki ki_stats ki_users ki_assets ki_download ki_upload ki_adduser)

lemma prompt_consumes: "prompt w = (Inr c, w') \<Longrightarrow> length (stdin w') < length (stdin w)"
  by (auto simp: prompt_def next_do_def andthen_def print_def input_def int_of_str_def ret_def raise_def
      split: list.splits option.splits)

text \<open>
  \<^verbatim>\<open>while cmd != 0: ...; cmd = prompt()\<close>, entered with the first command read.
\<close>

function main_loop :: "string \<Rightarrow> string \<Rightarrow> int \<Rightarrow> unit proc" where
  "main_loop bucketname endpoint cmd w =
     (if cmd \<noteq> 0
      then (case dispatch bucketname endpoint cmd w of
              (Inl s, w1) \<Rightarrow> (Inl s, w1)
            | (Inr _, w1) \<Rightarrow>
                (case prompt w1 of
                   (Inl s, w2) \<Rightarrow> (Inl s, w2)
                 | (Inr cmd', w2) \<Rightarrow> main_loop bucketname endpoint cmd' w2))
      else (Inr (), w))"
  by pat_completeness auto
termination
proof (relation "measure (\<lambda>(b, e, c, w). length (stdin w))")
  show "wf (measure (\<lambda>(b, e, c, w). length (stdin w)))" by simp
next
  fix bucketname endpoint :: string and cmd cmd' :: int and w w1 w2 :: world
    and x :: "stop + unit" and u :: unit and y :: "stop + int"
  assume d: "(x, w1) = dispatch bucketname endpoint cmd w"
    and p: "(y, w2) = prompt w1" and y: "y = Inr cmd'"
  from d ki_dispatch have "length (stdin w1) \<le> length (stdin w)"
    unfolding keeps_input_def by metis
  moreover from p y have "length (stdin w2) < length (stdin w1)"
    using prompt_consumes by metis
  ultimately show "((bucketname, endpoint, cmd', w2), (bucketname, endpoint, cmd, w))
      \<in> measure (\<lambda>(b, e, c, w). length (stdin w))" by simp
qed

declare main_loop.simps [simp del]

text \<open>The main processing loop and the two lines printed after it.\<close>

definition main_processing :: "string \<Rightarrow> string \<Rightarrow> unit proc" where
  "main_processing bucketname endpoint =
     andthen prompt (\<lambda>cmd.
     next_do (main_loop bucketname endpoint cmd)
    (next_do (print [])
    (print [PStr ''** done **''])))"

subsection \<open>A small world for the examples\<close>

text \<open>
  Two users, two assets that share the original name \<^verbatim>\<open>cat.jpg\<close>, two local files,
  \<^verbatim>\<open>dog.jpg\<close> and \<^verbatim>\<open>/tmp/pup.jpg\<close>, and a store that reads a key written in plain
  decimal digits. The process runs in \<^verbatim>\<open>/home/u\<close>; the operating system refuses a
  rename into the directory \<^verbatim>\<open>nodir\<close>, which does not exist; the contents \<^verbatim>\<open>CAT1\<close>,
  \<^verbatim>\<open>CAT2\<close>, \<^verbatim>\<open>DOG\<close> and \<^verbatim>\<open>PUP\<close> name the bytes of pictures, \<^verbatim>\<open>NOISE\<close> bytes that
  are none.
\<close>

definition decimal_key :: "string \<Rightarrow> int option" where
  "decimal_key s = map_option int (py_nat s)"

definition demo_db :: database where
  "demo_db =
     \<lparr>users_tbl = [\<lparr>userid = 1, email = ''a@b.com'', lastname = ''Doe'', firstname = ''Jane'',
                    bucketfolder = ''f1''\<rparr>,
                   \<lparr>userid = 2, email = ''c@d.org'', lastname = ''Roe'', firstname = ''Rick'',
                    bucketfolder = ''f2''\<rparr>],
      assets_tbl = [\<lparr>assetid = 1001, asset_userid = 1, assetname = ''cat.jpg'',
                     bucketkey = ''f1/k1.jpg''\<rparr>,
                    \<lparr>assetid = 1002, asset_userid = 2, assetname = ''cat.jpg'',
                     bucketkey = ''f2/k2.jpg''\<rparr>],
      users_auto = 3, assets_auto = 1003, last_insert_id = 0, key_of = decimal_key\<rparr>"

definition demo_world :: "string list \<Rightarrow> bool list \<Rightarrow> world" where
  "demo_world lines faults =
     \<lparr>stdin = lines, stdout = [], db = demo_db, db_faults = faults,
      bucket = [(''f1/k1.jpg'', ''CAT1''), (''f2/k2.jpg'', ''CAT2'')],
      files = [''dog.jpg'' \<mapsto> ''DOG'', ''/tmp/pup.jpg'' \<mapsto> ''PUP''], calls = [],
      uuid_src = (\<lambda>n. 0x0123456789ab4def8edcba9876543210 + of_nat n),
      tmp_src = (\<lambda>n. replicate (Suc n) CHR ''t''),
      cwd = ''/home/u'',
      os_refuses = (\<lambda>src dst. if dirname dst = ''nodir'' then Some FileNotFoundError else None),
      decodes = (\<lambda>c. c \<noteq> ''NOISE'')\<rparr>"

section \<open>Properties\<close>

text \<open>The definitions a run of a handler unfolds.\<close>

lemmas run_defs = ret_def raise_def andthen_def next_do_def print_def input_def
  os_path_exists_def os_abort_def subscript_def str_add_def as_str_def uuid4_def
  retrieve_one_row_def retrieve_all_rows_def perform_action_def db_called_def
  upload_file_def download_file_def display_image_def os_rename_def list_objects_def
  py_len_def cell_def call_fails_def Let_def

subsection \<open>Upload: invalid input\<close>

text \<open>
  C2. If the local path entered does not exist, \<open>upload\<close> prints that the file does not
  exist and stops the whole process with \<^verbatim>\<open>os.abort()\<close>: the resulting world differs
  from the starting one only in the line read and the two lines printed, so no call went
  to the bucket or to the database. If the file exists and the user id entered matches no
  row of \<open>users\<close>, it prints \<^verbatim>\<open>No such user...\<close> and stops the process as well, after the
  one lookup.
\<close>

theorem upload_invalid_input_aborts:
  "(stdin w = s # rest \<and> files w s = None \<longrightarrow>
      upload w =
        (Inl Abort,
         w\<lparr>stdin := rest,
           stdout := stdout w @
             [[PStr ''Enter local file name>''],
              [PStr (''Local file '' @ quote), PStr s, PStr (quote @ '' does not exist...'')]]\<rparr>))
   \<and> (stdin w = s # i # rest' \<and> files w s \<noteq> None
        \<and> (\<forall>u \<in> set (users_tbl (db w)). key_of (db w) i \<noteq> Some (userid u)) \<longrightarrow>
      upload w =
        (Inl Abort,
         w\<lparr>stdin := rest',
           stdout := stdout w @
             [[PStr ''Enter local file name>''], [PStr ''Enter user id>''],
              [PStr ''No such user...'']],
           calls := calls w @ [DbCall UserById [PStr i]],
           db_faults := tl (db_faults w)\<rparr>))"
proof (intro conjI impI)
  assume "stdin w = s # rest \<and> files w s = None"
  then show "upload w =
        (Inl Abort,
         w\<lparr>stdin := rest,
           stdout := stdout w @
             [[PStr ''Enter local file name>''],
              [PStr (''Local file '' @ quote), PStr s, PStr (quote @ '' does not exist...'')]]\<rparr>)"
    by (simp add: upload_def run_defs)
next
  assume a: "stdin w = s # i # rest' \<and> files w s \<noteq> None
        \<and> (\<forall>u \<in> set (users_tbl (db w)). key_of (db w) i \<noteq> Some (userid u))"
  then have f: "filter (\<lambda>u. key_of (db w) i = Some (userid u)) (users_tbl (db w)) = []"
    by (auto simp: filter_empty_conv)
  from a f show "upload w =
        (Inl Abort,
         w\<lparr>stdin := rest',
           stdout := stdout w @
             [[PStr ''Enter local file name>''], [PStr ''Enter user id>''],
              [PStr ''No such user...'']],
           calls := calls w @ [DbCall UserById [PStr i]],
           db_faults := tl (db_faults w)\<rparr>)"
    by (auto simp: upload_def run_defs select_rows_def)
qed

theorem upload_invalid_input_aborts_witness:
  "fst (upload (demo_world [''/tmp/nope.jpg''] [])) = Inl Abort
   \<and> calls (snd (upload (demo_world [''/tmp/nope.jpg''] []))) = []
   \<and> db (snd (upload (demo_world [''/tmp/nope.jpg''] []))) = demo_db
   \<and> fst (upload (demo_world [''dog.jpg'', ''7''] [])) = Inl Abort
   \<and> last (stdout (snd (upload (demo_world [''dog.jpg'', ''7''] [])))) = [PStr ''No such user...'']"
  using upload_invalid_input_aborts [of "demo_world [''/tmp/nope.jpg''] []" "''/tmp/nope.jpg''" "[]" "''7''" "[]"]
    upload_invalid_input_aborts [of "demo_world [''dog.jpg'', ''7''] []" "''dog.jpg''" "[''7'']" "''7''" "[]"]
  by (simp add: demo_world_def demo_db_def decimal_key_def py_nat_def digit_of_def)

subsection \<open>Download of an unknown asset\<close>

text \<open>
  C3. When no row of \<open>assets\<close> has the identifier entered, \<open>download\<close> makes no call to
  the object store and touches neither the bucket nor a local file; when the lookup is
  executed, what it reports is \<^verbatim>\<open>No such asset...\<close>, and the only call made is the lookup.
\<close>

theorem download_unknown_asset:
  assumes "stdin w = a # rest"
    and "\<forall>x \<in> set (assets_tbl (db w)). key_of (db w) a \<noteq> Some (assetid x)"
  shows "filter is_storage_call (calls (snd (download display w)))
           = filter is_storage_call (calls w)
         \<and> files (snd (download display w)) = files w
         \<and> bucket (snd (download display w)) = bucket w
         \<and> (\<not> call_fails w \<longrightarrow>
              download display w =
                (Inr (),
                 w\<lparr>stdin := rest,
                   stdout := stdout w @ [[PStr ''Enter asset id>''], [PStr ''No such asset...'']],
                   calls := calls w @ [DbCall AssetById [PStr a]],
                   db_faults := tl (db_faults w)\<rparr>))"
proof -
  from assms(2)
  have f: "filter (\<lambda>x. key_of (db w) a = Some (assetid x)) (assets_tbl (db w)) = []"
    by (auto simp: filter_empty_conv)
  show ?thesis
    using assms(1) f
    by (simp add: download_def run_defs select_rows_def is_storage_call_def)
qed

theorem download_unknown_asset_witness:
  "download False (demo_world [''7''] []) =
     (Inr (), (demo_world [] [])\<lparr>stdout := [[PStr ''Enter asset id>''], [PStr ''No such asset...'']],
                  calls := [DbCall AssetById [PStr ''7'']]\<rparr>)"
  using download_unknown_asset [of "demo_world [''7''] []" "''7''" "[]" False]
  by (simp add: demo_world_def demo_db_def decimal_key_def py_nat_def digit_of_def call_fails_def)

subsection \<open>Upload: the row inserted\<close>

text \<open>The key \<open>upload\<close> builds for user row \<open>u\<close>: folder, separator, token, extension.\<close>

definition uploaded_key :: "world \<Rightarrow> user_row \<Rightarrow> string" where
  "uploaded_key w u = bucketfolder u @ ''/'' @ str_uuid (uuid_src w 0) @ ''.jpg''"

lemma first_match:
  "filter P xs = u # us \<Longrightarrow> u \<in> set xs \<and> P u"
  by (metis Cons_eq_filterD in_set_conv_decomp)

lemma upload_run:
  assumes "stdin w = s # i # rest" and "files w s = Some c"
    and "filter (\<lambda>u. key_of (db w) i = Some (userid u)) (users_tbl (db w)) = u # us"
    and "db_faults w = [] \<or> db_faults w = False # fs"
  shows "upload w =
     andthen (perform_action InsertAsset [PStr i, PStr s, PStr (uploaded_key w u)]) (\<lambda>row2.
     andthen (retrieve_one_row LastInsertId []) (\<lambda>row3.
     andthen (subscript row3 0) (\<lambda>r.
     print [PStr ''Recorded in RDS under asset id'', r])))
       (w\<lparr>stdin := rest,
          stdout := stdout w @
            [[PStr ''Enter local file name>''], [PStr ''Enter user id>''],
             [PStr (''Uploaded and stored in S3 as '' @ quote), PStr (uploaded_key w u),
              PStr quote]],
          calls := calls w @ [DbCall UserById [PStr i], S3Upload s (uploaded_key w u)],
          db_faults := tl (db_faults w),
          uuid_src := (\<lambda>n. uuid_src w (Suc n)),
          bucket := (uploaded_key w u, c) #
                    filter (\<lambda>kv. fst kv \<noteq> uploaded_key w u) (bucket w)\<rparr>)"
  using assms
  by (auto simp: upload_def run_defs select_rows_def user_tuple_def uploaded_key_def
      split: option.splits prod.splits)


lemma upload_stops_early:
  "stdin w = [] \<Longrightarrow> db (snd (upload w)) = db w"
  "stdin w = [s] \<Longrightarrow> db (snd (upload w)) = db w"
  "stdin w = s # i # rest \<Longrightarrow> files w s = None \<Longrightarrow> db (snd (upload w)) = db w"
  "stdin w = s # i # rest \<Longrightarrow> call_fails w \<Longrightarrow> db (snd (upload w)) = db w"
  "stdin w = s # i # rest \<Longrightarrow>
     filter (\<lambda>u. key_of (db w) i = Some (userid u)) (users_tbl (db w)) = [] \<Longrightarrow>
     db (snd (upload w)) = db w"
  by (auto simp: upload_def run_defs select_rows_def split: option.splits)

lemma upload_after_failed_insert:
  assumes "stdin w = s # i # rest" and "files w s = Some c"
    and "filter (\<lambda>u. key_of (db w) i = Some (userid u)) (users_tbl (db w)) = u # us"
    and "\<not> call_fails w" and "call_fails (w\<lparr>db_faults := tl (db_faults w)\<rparr>)"
  shows "db (snd (upload w)) = db w"
proof -
  from assms(4) have "db_faults w = [] \<or> db_faults w = False # tl (db_faults w)"
    by (cases "db_faults w") (auto simp: call_fails_def)
  from upload_run [OF assms(1-3) this] assms(5) show ?thesis
    by (auto simp: run_defs select_rows_def split: list.splits)
qed

lemma upload_after_insert:
  assumes "stdin w = s # i # rest" and "files w s = Some c"
    and "filter (\<lambda>u. key_of (db w) i = Some (userid u)) (users_tbl (db w)) = u # us"
    and "\<not> call_fails w" and "\<not> call_fails (w\<lparr>db_faults := tl (db_faults w)\<rparr>)"
  shows "db (snd (upload w)) =
           (db w)\<lparr>assets_tbl := assets_tbl (db w) @
                      [\<lparr>assetid = assets_auto (db w), asset_userid = userid u,
                        assetname = s, bucketkey = uploaded_key w u\<rparr>],
                   assets_auto := assets_auto (db w) + 1,
                   last_insert_id := assets_auto (db w)\<rparr>"
    and "uuid_src (snd (upload w)) = (\<lambda>n. uuid_src w (Suc n))"
    and "bucket (snd (upload w)) =
           (uploaded_key w u, c) # filter (\<lambda>kv. fst kv \<noteq> uploaded_key w u) (bucket w)"
    and "calls (snd (upload w)) =
           calls w @ [DbCall UserById [PStr i], S3Upload s (uploaded_key w u),
                      DbCall InsertAsset [PStr i, PStr s, PStr (uploaded_key w u)],
                      DbCall LastInsertId []]"
proof -
  from assms(4) have f: "db_faults w = [] \<or> db_faults w = False # tl (db_faults w)"
    by (cases "db_faults w") (auto simp: call_fails_def)
  from first_match [OF assms(3)] have k: "key_of (db w) i = Some (userid u)" by simp
  note r = upload_run [OF assms(1-3) f]
  from r assms(5) k show "db (snd (upload w)) =
           (db w)\<lparr>assets_tbl := assets_tbl (db w) @
                      [\<lparr>assetid = assets_auto (db w), asset_userid = userid u,
                        assetname = s, bucketkey = uploaded_key w u\<rparr>],
                   assets_auto := assets_auto (db w) + 1,
                   last_insert_id := assets_auto (db w)\<rparr>"
    by (auto simp: run_defs select_rows_def apply_action_def split: list.splits)
  from r assms(5) k show "uuid_src (snd (upload w)) = (\<lambda>n. uuid_src w (Suc n))"
    by (auto simp: run_defs select_rows_def apply_action_def split: list.splits)
  from r assms(5) k show "bucket (snd (upload w)) =
           (uploaded_key w u, c) # filter (\<lambda>kv. fst kv \<noteq> uploaded_key w u) (bucket w)"
    by (auto simp: run_defs select_rows_def apply_action_def split: list.splits)
  from r assms(5) k show "calls (snd (upload w)) =
           calls w @ [DbCall UserById [PStr i], S3Upload s (uploaded_key w u),
                      DbCall InsertAsset [PStr i, PStr s, PStr (uploaded_key w u)],
                      DbCall LastInsertId []]"
    by (auto simp: run_defs select_rows_def apply_action_def split: list.splits)
qed

lemma upload_changes_db:
  assumes "db (snd (upload w)) \<noteq> db w"
  obtains s i rest c u us where "stdin w = s # i # rest" and "files w s = Some c"
    and "filter (\<lambda>u. key_of (db w) i = Some (userid u)) (users_tbl (db w)) = u # us"
    and "\<not> call_fails w" and "\<not> call_fails (w\<lparr>db_faults := tl (db_faults w)\<rparr>)"
proof -
  from assms upload_stops_early(1,2) obtain s i rest where 1: "stdin w = s # i # rest"
    by (metis list.exhaust)
  with assms upload_stops_early(3) obtain c where 2: "files w s = Some c"
    by (metis option.exhaust)
  from 1 assms upload_stops_early(4) have 4: "\<not> call_fails w" by metis
  from 1 assms upload_stops_early(5) obtain u us where
    3: "filter (\<lambda>u. key_of (db w) i = Some (userid u)) (users_tbl (db w)) = u # us"
    by (metis list.exhaust)
  from upload_after_failed_insert [OF 1 2 3 4] assms
  have 5: "\<not> call_fails (w\<lparr>db_faults := tl (db_faults w)\<rparr>)" by metis
  from 1 2 3 4 5 that show thesis by blast
qed

text \<open>
  C4. Whenever \<open>upload\<close> adds a row to \<open>assets\<close>, the lookup of the entered user id was
  made first and returned a populated row of a user \<open>u\<close> of the table; the calls were, in
  order, the lookup, the put to the bucket, the insert and the re-query; the row added is
  owned by \<open>u\<close>, and the \<open>users\<close> table is the same at the insert as at the lookup.
\<close>

theorem upload_inserts_for_existing_user:
  assumes "assets_tbl (db (snd (upload w))) \<noteq> assets_tbl (db w)"
  shows "\<exists>s i rest u a k.
           stdin w = s # i # rest
         \<and> u \<in> set (users_tbl (db w)) \<and> key_of (db w) i = Some (userid u)
         \<and> fst (retrieve_one_row UserById [PStr i] w) = Inr (user_tuple u)
         \<and> calls (snd (upload w)) =
             calls w @ [DbCall UserById [PStr i], S3Upload s k,
                        DbCall InsertAsset [PStr i, PStr s, PStr k], DbCall LastInsertId []]
         \<and> assets_tbl (db (snd (upload w))) = assets_tbl (db w) @ [a]
         \<and> asset_userid a = userid u
         \<and> users_tbl (db (snd (upload w))) = users_tbl (db w)"
proof -
  from assms have "db (snd (upload w)) \<noteq> db w" by auto
  then obtain s i rest c u us where 1: "stdin w = s # i # rest" and 2: "files w s = Some c"
    and 3: "filter (\<lambda>u. key_of (db w) i = Some (userid u)) (users_tbl (db w)) = u # us"
    and 4: "\<not> call_fails w" and 5: "\<not> call_fails (w\<lparr>db_faults := tl (db_faults w)\<rparr>)"
    by (rule upload_changes_db)
  note d = upload_after_insert(1) [OF 1 2 3 4 5]
  note c = upload_after_insert(4) [OF 1 2 3 4 5]
  from first_match [OF 3]
  have m: "u \<in> set (users_tbl (db w))" and k: "key_of (db w) i = Some (userid u)" by simp_all
  from 3 4 have l: "fst (retrieve_one_row UserById [PStr i] w) = Inr (user_tuple u)"
    by (simp add: retrieve_one_row_def select_rows_def)
  let ?a = "\<lparr>assetid = assets_auto (db w), asset_userid = userid u,
                        assetname = s, bucketkey = uploaded_key w u\<rparr>"
  from d have "assets_tbl (db (snd (upload w))) = assets_tbl (db w) @ [?a]"
    and "users_tbl (db (snd (upload w))) = users_tbl (db w)" by simp_all
  with 1 m k l c show ?thesis by force
qed

theorem upload_inserts_for_existing_user_witness:
  "assets_tbl (db (snd (upload (demo_world [''dog.jpg'', ''2''] [])))) \<noteq> assets_tbl demo_db
   \<and> (\<exists>u a. u \<in> set (users_tbl demo_db)
          \<and> assets_tbl (db (snd (upload (demo_world [''dog.jpg'', ''2''] []))))
              = assets_tbl demo_db @ [a]
          \<and> asset_userid a = userid u)"
proof -
  have h: "assets_tbl (db (snd (upload (demo_world [''dog.jpg'', ''2''] []))))
           \<noteq> assets_tbl (db (demo_world [''dog.jpg'', ''2''] []))"
    by (simp add: upload_def run_defs select_rows_def apply_action_def user_tuple_def
        demo_world_def demo_db_def decimal_key_def py_nat_def digit_of_def)
  have d: "db (demo_world [''dog.jpg'', ''2''] []) = demo_db" by (simp add: demo_world_def)
  from upload_inserts_for_existing_user [OF h] h show ?thesis unfolding d by blast
qed

text \<open>
  The string of a token: 36 characters, hyphens at the four places of \<^verbatim>\<open>str()\<close> of a
  UUID and the 32 hexadecimal digits of the token around them, so that two tokens have
  two strings.
\<close>

lemma length_hex32: "length (hex32 u) = 32"
  by (simp add: hex32_def)

lemma length_str_uuid: "length (str_uuid u) = 36"
  by (simp add: str_uuid_def Let_def length_hex32)

lemma hex_digit_inj: "a < 16 \<Longrightarrow> b < 16 \<Longrightarrow> hex_digit a = hex_digit b \<Longrightarrow> a = b"
proof -
  have d: "distinct ''0123456789abcdef''" by simp
  have l: "length ''0123456789abcdef'' = 16" by simp
  show "a < 16 \<Longrightarrow> b < 16 \<Longrightarrow> hex_digit a = hex_digit b \<Longrightarrow> a = b"
    unfolding hex_digit_def using d l nth_eq_iff_index_eq by metis
qed

lemma hex_digit_not_hyphen: "n < 16 \<Longrightarrow> hex_digit n \<noteq> CHR ''-''"
proof -
  assume "n < 16"
  then have "hex_digit n \<in> set ''0123456789abcdef''"
    unfolding hex_digit_def by (intro nth_mem) simp
  then show ?thesis by auto
qed

lemma nibble_less: "unat ((x :: uuid) AND 15) < 16"
proof -
  have "x AND 15 \<le> 15" by (rule word_and_le1)
  then have "unat (x AND 15) \<le> unat (15 :: uuid)" by (simp add: word_le_nat_alt)
  then show ?thesis by simp
qed

lemma hex32_no_hyphen: "CHR ''-'' \<notin> set (hex32 u)"
  by (auto simp: hex32_def dest!: hex_digit_not_hyphen [OF nibble_less, THEN notE, OF sym])

lemma unhyphen: "filter (\<lambda>c. c \<noteq> CHR ''-'') (str_uuid u) = hex32 u"
proof -
  let ?h = "hex32 u"
  let ?P = "\<lambda>c. c \<noteq> CHR ''-''"
  have P: "?P c" if "c \<in> set ?h" for c using that hex32_no_hyphen [of u] by auto
  have t: "filter ?P (take n (drop m ?h)) = take n (drop m ?h)" for n m
  proof (rule filter_True, rule ballI)
    fix c assume "c \<in> set (take n (drop m ?h))"
    then have "c \<in> set (drop m ?h)" by (rule in_set_takeD)
    then have "c \<in> set ?h" by (rule in_set_dropD)
    then show "?P c" by (rule P)
  qed
  have t0: "filter ?P (take n ?h) = take n ?h" for n
    using t [of n 0] by simp
  have d0: "filter ?P (drop n ?h) = drop n ?h" for n
  proof (rule filter_True, rule ballI)
    fix c assume "c \<in> set (drop n ?h)"
    then have "c \<in> set ?h" by (rule in_set_dropD)
    then show "?P c" by (rule P)
  qed
  have "take (8 + 4) ?h = take 8 ?h @ take 4 (drop 8 ?h)" by (rule take_add)
  then have a: "take 8 ?h @ take 4 (drop 8 ?h) = take 12 ?h" by simp
  have "take (12 + 4) ?h = take 12 ?h @ take 4 (drop 12 ?h)" by (rule take_add)
  then have b: "take 12 ?h @ take 4 (drop 12 ?h) = take 16 ?h" by simp
  have "take (16 + 4) ?h = take 16 ?h @ take 4 (drop 16 ?h)" by (rule take_add)
  then have c: "take 16 ?h @ take 4 (drop 16 ?h) = take 20 ?h" by simp
  have "filter ?P (str_uuid u) =
          take 8 ?h @ take 4 (drop 8 ?h) @ take 4 (drop 12 ?h) @ take 4 (drop 16 ?h)
          @ drop 20 ?h"
    by (simp add: str_uuid_def Let_def t t0 d0)
  also have "\<dots> = (((take 8 ?h @ take 4 (drop 8 ?h)) @ take 4 (drop 12 ?h))
          @ take 4 (drop 16 ?h)) @ drop 20 ?h"
    by simp
  also have "\<dots> = ?h" unfolding a b c by (rule append_take_drop_id)
  finally show ?thesis .
qed

lemma nibble_eq:
  fixes u v :: uuid
  assumes "hex32 u = hex32 v" and "j < 32"
  shows "drop_bit (4 * j) u AND 15 = drop_bit (4 * j) v AND 15"
proof -
  from assms(2) have i: "31 - j < 32" and e: "31 - (31 - j) = j" by simp_all
  from assms(1) have "hex32 u ! (31 - j) = hex32 v ! (31 - j)" by simp
  then have "hex_digit (unat (drop_bit (4 * j) u AND 15))
           = hex_digit (unat (drop_bit (4 * j) v AND 15))"
    using i by (simp add: hex32_def e del: upt_Suc)
  then have "unat (drop_bit (4 * j) u AND 15) = unat (drop_bit (4 * j) v AND 15)"
    by (rule hex_digit_inj [OF nibble_less nibble_less])
  then show ?thesis by (simp add: word_unat_eq_iff)
qed

lemma hex32_inj: "hex32 u = hex32 v \<Longrightarrow> u = v"
proof (rule bit_word_eqI)
  fix n
  assume h: "hex32 u = hex32 v" and n: "n < LENGTH(128)"
  then have j: "n div 4 < 32" by simp
  have m: "(15 :: uuid) = mask 4" by (simp add: mask_eq_exp_minus_1)
  have q: "n mod 4 < 128" by (rule less_trans [of _ 4]) simp_all
  have r: "bit (drop_bit (4 * (n div 4)) x AND 15) (n mod 4) = bit x n" for x :: uuid
    by (simp add: m bit_and_iff bit_drop_bit_eq bit_mask_iff q)
  from nibble_eq [OF h j] have
    "bit (drop_bit (4 * (n div 4)) u AND 15) (n mod 4)
     = bit (drop_bit (4 * (n div 4)) v AND 15) (n mod 4)" by simp
  then show "bit u n = bit v n" by (simp only: r)
qed

lemma inj_str_uuid: "inj str_uuid"
proof (rule injI)
  fix u v assume "str_uuid u = str_uuid v"
  then have "hex32 u = hex32 v" using unhyphen by metis
  then show "u = v" by (rule hex32_inj)
qed

lemma str_uuid_hyphens:
  "map ((!) (str_uuid u)) [8, 13, 18, 23] = ''----''"
  by (simp add: str_uuid_def Let_def nth_append length_hex32)

lemma upt32:
  "[0..<32] = [0, 1, 2, 3, 4, 5, 6, 7, 8, 9, 10, 11, 12, 13, 14, 15, 16, 17, 18, 19, 20, 21,
               22, 23, 24, 25, 26, 27, 28, 29, 30, 31]"
  by (simp add: upt_conv_Cons)

text \<open>
  C5. For every upload that returns and has added a row to \<open>assets\<close>: the key stored in
  the row is the folder identifier of the user row found, then \<^verbatim>\<open>/\<close>, then the string of
  the 128-bit token \<^verbatim>\<open>uuid.uuid4()\<close> returned at this call (the source of tokens has
  moved on by one), then \<^verbatim>\<open>.jpg\<close>. The string of the token is its 32 hexadecimal
  digits in the 36 characters of \<^verbatim>\<open>str()\<close>, and it determines the token. The row carries
  the user id entered (as the store reads it) and the local file name entered, and the
  bucket holds the file under that key.
\<close>

theorem upload_asset_row:
  assumes "upload w = (Inr (), w')" and "assets_tbl (db w') \<noteq> assets_tbl (db w)"
  shows "\<exists>s i rest u us c.
           stdin w = s # i # rest
         \<and> files w s = Some c
         \<and> filter (\<lambda>u. key_of (db w) i = Some (userid u)) (users_tbl (db w)) = u # us
         \<and> key_of (db w) i = Some (userid u)
         \<and> assets_tbl (db w') = assets_tbl (db w) @
              [\<lparr>assetid = assets_auto (db w), asset_userid = userid u, assetname = s,
                bucketkey = bucketfolder u @ ''/'' @ str_uuid (uuid_src w 0) @ ''.jpg''\<rparr>]
         \<and> length (str_uuid (uuid_src w 0)) = 36
         \<and> map ((!) (str_uuid (uuid_src w 0))) [8, 13, 18, 23] = ''----''
         \<and> filter (\<lambda>c. c \<noteq> CHR ''-'') (str_uuid (uuid_src w 0)) = hex32 (uuid_src w 0)
         \<and> inj str_uuid \<and> inj hex32
         \<and> uuid_src w' = (\<lambda>n. uuid_src w (Suc n))
         \<and> map_of (bucket w')
              (bucketfolder u @ ''/'' @ str_uuid (uuid_src w 0) @ ''.jpg'') = Some c"
proof -
  from assms have w': "w' = snd (upload w)" by simp
  from assms have "db (snd (upload w)) \<noteq> db w" by auto
  then obtain s i rest c u us where 1: "stdin w = s # i # rest" and 2: "files w s = Some c"
    and 3: "filter (\<lambda>u. key_of (db w) i = Some (userid u)) (users_tbl (db w)) = u # us"
    and 4: "\<not> call_fails w" and 5: "\<not> call_fails (w\<lparr>db_faults := tl (db_faults w)\<rparr>)"
    by (rule upload_changes_db)
  note r = upload_after_insert [OF 1 2 3 4 5, folded w']
  from first_match [OF 3] have k: "key_of (db w) i = Some (userid u)" by simp
  from r(1) have a: "assets_tbl (db w') = assets_tbl (db w) @
              [\<lparr>assetid = assets_auto (db w), asset_userid = userid u, assetname = s,
                bucketkey = bucketfolder u @ ''/'' @ str_uuid (uuid_src w 0) @ ''.jpg''\<rparr>]"
    by (simp add: uploaded_key_def)
  from r(3) have b: "map_of (bucket w')
              (bucketfolder u @ ''/'' @ str_uuid (uuid_src w 0) @ ''.jpg'') = Some c"
    by (simp add: uploaded_key_def)
  have h: "inj hex32" by (rule injI) (rule hex32_inj)
  show ?thesis
    by (intro exI [of _ s] exI [of _ i] exI [of _ rest] exI [of _ u] exI [of _ us]
          exI [of _ c] conjI 1 2 3 k a b r(2) length_str_uuid str_uuid_hyphens unhyphen
          inj_str_uuid h)
qed

theorem upload_asset_row_witness:
  "\<exists>w'. upload (demo_world [''dog.jpg'', ''2''] []) = (Inr (), w')
     \<and> assets_tbl (db w') = assets_tbl demo_db @
          [\<lparr>assetid = 1003, asset_userid = 2, assetname = ''dog.jpg'',
            bucketkey = ''f2/01234567-89ab-4def-8edc-ba9876543210.jpg''\<rparr>]
     \<and> map_of (bucket w') ''f2/01234567-89ab-4def-8edc-ba9876543210.jpg'' = Some ''DOG''"
proof -
  let ?w = "demo_world [''dog.jpg'', ''2''] []"
  have t: "str_uuid 0x0123456789ab4def8edcba9876543210 = ''01234567-89ab-4def-8edc-ba9876543210''"
    by (simp add: str_uuid_def hex32_def upt32 hex_digit_def)
  have r: "upload ?w = (Inr (), snd (upload ?w))"
    by (simp add: upload_def run_defs select_rows_def apply_action_def user_tuple_def
        demo_world_def demo_db_def decimal_key_def py_nat_def digit_of_def)
  have h: "assets_tbl (db (snd (upload ?w))) \<noteq> assets_tbl (db ?w)"
    by (simp add: upload_def run_defs select_rows_def apply_action_def user_tuple_def
        demo_world_def demo_db_def decimal_key_def py_nat_def digit_of_def)
  from upload_asset_row [OF r h]
  have "assets_tbl (db (snd (upload ?w))) = assets_tbl demo_db @
          [\<lparr>assetid = 1003, asset_userid = 2, assetname = ''dog.jpg'',
            bucketkey = ''f2/01234567-89ab-4def-8edc-ba9876543210.jpg''\<rparr>]
     \<and> map_of (bucket (snd (upload ?w))) ''f2/01234567-89ab-4def-8edc-ba9876543210.jpg''
          = Some ''DOG''"
    by (auto simp: demo_world_def demo_db_def decimal_key_def py_nat_def digit_of_def t)
  with r show ?thesis by blast
qed

subsection \<open>Upload and add-user: the result of the insert\<close>

lemma adduser_run:
  assumes "stdin w = e # l # f # rest"
  shows "adduser w =
     andthen (perform_action InsertUser [PStr e, PStr l, PStr f, PUuid (uuid_src w 0)]) (\<lambda>row1.
     andthen (retrieve_one_row LastInsertId []) (\<lambda>row2.
     andthen (subscript row2 0) (\<lambda>r.
     print [PStr ''Recorded in RDS under asset id'', r])))
       (w\<lparr>stdout := stdout w @
            [[PStr (''Enter user'' @ quote @ ''s email>'')],
             [PStr (''Enter user'' @ quote @ ''s last (family) name>'')],
             [PStr (''Enter user'' @ quote @ ''s first (given) name>'')]],
          stdin := rest,
          uuid_src := (\<lambda>n. uuid_src w (Suc n))\<rparr>)"
  using assms
  by (simp add: adduser_def andthen_def next_do_def print_def input_def uuid4_def)

text \<open>
  C9. Neither \<open>upload\<close> nor \<open>adduser\<close> looks at what the insert returned. In \<open>upload\<close>,
  once the lookup has found the user, the calls made are the same whether the insert
  fails (\<open>fi\<close>) or not: put, insert, re-query. When the insert fails the database is
  unchanged, and if the re-query executes the handler still prints
  \<^verbatim>\<open>Recorded in RDS under asset id\<close>, with the identifier of an earlier insert; if the
  re-query fails (\<open>fq\<close>) its result is \<^verbatim>\<open>None\<close> and \<^verbatim>\<open>row3[0]\<close> raises \<^verbatim>\<open>TypeError\<close>,
  which nothing catches. \<open>adduser\<close> behaves the same way (\<open>gi\<close>, \<open>gq\<close>). A failing call
  of \<open>perform_action\<close> is one that returns \<^verbatim>\<open>None\<close>.
\<close>

theorem insert_result_not_inspected:
  "(stdin w = s # i # rest \<and> files w s = Some c
      \<and> filter (\<lambda>u. key_of (db w) i = Some (userid u)) (users_tbl (db w)) = u # us
      \<and> db_faults w = False # fi # fq # fs \<longrightarrow>
        calls (snd (upload w)) =
          calls w @ [DbCall UserById [PStr i], S3Upload s (uploaded_key w u),
                     DbCall InsertAsset [PStr i, PStr s, PStr (uploaded_key w u)],
                     DbCall LastInsertId []]
      \<and> (fi \<longrightarrow> db (snd (upload w)) = db w)
      \<and> (\<not> fq \<longrightarrow> fst (upload w) = Inr ()
            \<and> last (stdout (snd (upload w))) =
                [PStr ''Recorded in RDS under asset id'',
                 PInt (if fi then last_insert_id (db w) else assets_auto (db w))])
      \<and> (fq \<longrightarrow> fst (upload w) = Inl (Raise TypeError)))
   \<and> (stdin v = e # l # f # rest' \<and> db_faults v = gi # gq # gs \<longrightarrow>
        calls (snd (adduser v)) =
          calls v @ [DbCall InsertUser [PStr e, PStr l, PStr f, PUuid (uuid_src v 0)],
                     DbCall LastInsertId []]
      \<and> (gi \<longrightarrow> db (snd (adduser v)) = db v)
      \<and> (\<not> gq \<longrightarrow> fst (adduser v) = Inr ()
            \<and> last (stdout (snd (adduser v))) =
                [PStr ''Recorded in RDS under asset id'',
                 PInt (if gi then last_insert_id (db v) else users_auto (db v))])
      \<and> (gq \<longrightarrow> fst (adduser v) = Inl (Raise TypeError)))
   \<and> (call_fails v' \<longrightarrow> fst (perform_action sql ps v') = Inr PNone)"
proof (intro conjI impI)
  assume a: "stdin w = s # i # rest \<and> files w s = Some c
      \<and> filter (\<lambda>u. key_of (db w) i = Some (userid u)) (users_tbl (db w)) = u # us
      \<and> db_faults w = False # fi # fq # fs"
  then have 1: "stdin w = s # i # rest" and 2: "files w s = Some c"
    and 3: "filter (\<lambda>u. key_of (db w) i = Some (userid u)) (users_tbl (db w)) = u # us"
    and 4: "db_faults w = [] \<or> db_faults w = False # fi # fq # fs"
    and 5: "db_faults w = False # fi # fq # fs" by simp_all
  note r = upload_run [OF 1 2 3 4]
  from first_match [OF 3] have k: "key_of (db w) i = Some (userid u)" by simp
  show "calls (snd (upload w)) =
          calls w @ [DbCall UserById [PStr i], S3Upload s (uploaded_key w u),
                     DbCall InsertAsset [PStr i, PStr s, PStr (uploaded_key w u)],
                     DbCall LastInsertId []]"
    using r 5 k by (cases fi; cases fq) (simp_all add: run_defs select_rows_def apply_action_def)
  show "db (snd (upload w)) = db w" if "fi"
    using r 5 k that by (cases fq) (simp_all add: run_defs select_rows_def apply_action_def)
  show "fst (upload w) = Inr ()" if "\<not> fq"
    using r 5 k that by (cases fi) (simp_all add: run_defs select_rows_def apply_action_def)
  show "last (stdout (snd (upload w))) =
                [PStr ''Recorded in RDS under asset id'',
                 PInt (if fi then last_insert_id (db w) else assets_auto (db w))]" if "\<not> fq"
    using r 5 k that by (cases fi) (simp_all add: run_defs select_rows_def apply_action_def)
  show "fst (upload w) = Inl (Raise TypeError)" if "fq"
    using r 5 k that by (cases fi) (simp_all add: run_defs select_rows_def apply_action_def)
next
  assume a: "stdin v = e # l # f # rest' \<and> db_faults v = gi # gq # gs"
  then have 1: "stdin v = e # l # f # rest'" and 5: "db_faults v = gi # gq # gs" by simp_all
  note r = adduser_run [OF 1]
  show "calls (snd (adduser v)) =
          calls v @ [DbCall InsertUser [PStr e, PStr l, PStr f, PUuid (uuid_src v 0)],
                     DbCall LastInsertId []]"
    using r 5 by (cases gi; cases gq) (simp_all add: run_defs select_rows_def apply_action_def)
  show "db (snd (adduser v)) = db v" if "gi"
    using r 5 that by (cases gq) (simp_all add: run_defs select_rows_def apply_action_def)
  show "fst (adduser v) = Inr ()" if "\<not> gq"
    using r 5 that by (cases gi) (simp_all add: run_defs select_rows_def apply_action_def)
  show "last (stdout (snd (adduser v))) =
                [PStr ''Recorded in RDS under asset id'',
                 PInt (if gi then last_insert_id (db v) else users_auto (db v))]" if "\<not> gq"
    using r 5 that by (cases gi) (simp_all add: run_defs select_rows_def apply_action_def)
  show "fst (adduser v) = Inl (Raise TypeError)" if "gq"
    using r 5 that by (cases gi) (simp_all add: run_defs select_rows_def apply_action_def)
next
  assume "call_fails v'"
  then show "fst (perform_action sql ps v') = Inr PNone"
    by (simp add: perform_action_def)
qed


theorem insert_result_not_inspected_witness:
  "fst (upload (demo_world [''dog.jpg'', ''1''] [False, True, False])) = Inr ()
   \<and> last (stdout (snd (upload (demo_world [''dog.jpg'', ''1''] [False, True, False]))))
        = [PStr ''Recorded in RDS under asset id'', PInt 0]
   \<and> db (snd (upload (demo_world [''dog.jpg'', ''1''] [False, True, False]))) = demo_db
   \<and> fst (upload (demo_world [''dog.jpg'', ''1''] [False, True, True])) = Inl (Raise TypeError)
   \<and> fst (adduser (demo_world [''a@b.com'', ''Doe'', ''Jane''] [True, False])) = Inr ()
   \<and> last (stdout (snd (adduser (demo_world [''a@b.com'', ''Doe'', ''Jane''] [True, False]))))
        = [PStr ''Recorded in RDS under asset id'', PInt 0]
   \<and> fst (adduser (demo_world [''a@b.com'', ''Doe'', ''Jane''] [True, True]))
        = Inl (Raise TypeError)"
  using
    insert_result_not_inspected
      [where w = "demo_world [''dog.jpg'', ''1''] [False, True, False]"
         and s = "''dog.jpg''" and i = "''1''" and rest = "[]" and c = "''DOG''"
         and u = "hd (users_tbl demo_db)" and us = "[]"
         and fi = True and fq = False and fs = "[]"
         and v = "demo_world [''a@b.com'', ''Doe'', ''Jane''] [True, False]"
         and e = "''a@b.com''" and l = "''Doe''" and f = "''Jane''" and rest' = "[]"
         and gi = True and gq = False and gs = "[]"]
    insert_result_not_inspected
      [where w = "demo_world [''dog.jpg'', ''1''] [False, True, True]"
         and s = "''dog.jpg''" and i = "''1''" and rest = "[]" and c = "''DOG''"
         and u = "hd (users_tbl demo_db)" and us = "[]"
         and fi = True and fq = True and fs = "[]"
         and v = "demo_world [''a@b.com'', ''Doe'', ''Jane''] [True, True]"
         and e = "''a@b.com''" and l = "''Doe''" and f = "''Jane''" and rest' = "[]"
         and gi = True and gq = True and gs = "[]"]
  by (simp add: demo_world_def demo_db_def decimal_key_def py_nat_def digit_of_def)

subsection \<open>Download: the file written\<close>








subsection \<open>The listings\<close>

text \<open>
  The identifiers a listing has printed: the integers of the lines \<^verbatim>\<open>User id: n\<close>
  (or \<^verbatim>\<open>Asset id: n\<close>), in the order printed.
\<close>

definition printed_ids :: "string \<Rightarrow> pyval list list \<Rightarrow> int list" where
  "printed_ids label out =
     concat (map (\<lambda>line. case line of
                           [PStr t, PInt i] \<Rightarrow> if t = label then [i] else []
                         | _ \<Rightarrow> []) out)"

text \<open>The four lines the loop of \<open>users\<close> prints for a row, and those of \<open>assets\<close>.\<close>

definition user_lines :: "user_row \<Rightarrow> pyval list list" where
  "user_lines u =
     [[PStr ''User id:'', PInt (userid u)],
      [PStr ''  Email:'', PStr (email u)],
      [PStr ''  Name:'', PStr (lastname u), PStr '','', PStr (firstname u)],
      [PStr ''  Folder:'', PStr (bucketfolder u)]]"

definition asset_lines :: "asset_row \<Rightarrow> pyval list list" where
  "asset_lines a =
     [[PStr ''Asset id:'', PInt (assetid a)],
      [PStr ''  User id:'', PInt (asset_userid a)],
      [PStr ''  Original name:'', PStr (assetname a)],
      [PStr ''  Key name:'', PStr (bucketkey a)]]"

lemma users_body_prints:
  "k < length us \<Longrightarrow>
     users_body (PTuple (map user_tuple us)) k w =
       (Inr (), w\<lparr>stdout := stdout w @ user_lines (us ! k)\<rparr>)"
  by (simp add: users_body_def run_defs user_tuple_def user_lines_def)

lemma assets_body_prints:
  "k < length rs \<Longrightarrow>
     assets_body (PTuple (map asset_tuple rs)) k w =
       (Inr (), w\<lparr>stdout := stdout w @ asset_lines (rs ! k)\<rparr>)"
  by (simp add: assets_body_def run_defs asset_tuple_def asset_lines_def)

lemma for_range_prints:
  assumes "\<And>k w. k < length xs \<Longrightarrow> body k w = (Inr (), w\<lparr>stdout := stdout w @ f (xs ! k)\<rparr>)"
  shows "k \<le> length xs \<Longrightarrow>
         for_range [k..<length xs] body w =
           (Inr (), w\<lparr>stdout := stdout w @ concat (map f (drop k xs))\<rparr>)"
proof (induction "length xs - k" arbitrary: k w)
  case 0
  then show ?case by (simp add: ret_def)
next
  case (Suc n)
  then have k: "k < length xs" by simp
  then have u: "[k..<length xs] = k # [Suc k..<length xs]" by (simp add: upt_rec)
  from Suc(2) have n: "n = length xs - Suc k" by simp
  from k have s: "Suc k \<le> length xs" by simp
  show ?case
    unfolding u
    by (simp add: next_do_def andthen_def assms [OF k] Suc(1) [OF n s]
        Cons_nth_drop_Suc [OF k, symmetric])
qed

lemma printed_user_ids: "printed_ids ''User id:'' (concat (map user_lines us)) = map userid us"
  by (induction us) (simp_all add: printed_ids_def user_lines_def)

lemma printed_asset_ids: "printed_ids ''Asset id:'' (concat (map asset_lines rs)) = map assetid rs"
  by (induction rs) (simp_all add: printed_ids_def asset_lines_def)

lemma desc_strict:
  fixes f :: "'a \<Rightarrow> int"
  assumes "distinct (map f xs)"
  shows "sorted_wrt (>) (map f (rev (sort_key f xs)))"
proof -
  from assms have "distinct (map f (sort_key f xs))"
    by (simp add: distinct_map)
  moreover have "sorted (map f (sort_key f xs))" by (rule sorted_sort_key)
  ultimately have "sorted_wrt (<) (map f (sort_key f xs))" by (simp add: strict_sorted_iff)
  then show ?thesis unfolding rev_map [symmetric] sorted_wrt_rev .
qed

lemma users_output:
  "stdout (snd (users w)) = stdout w @
     (if call_fails w then [[PStr ''Database operation failed...'']]
      else if users_tbl (db w) = [] then [[PStr ''Unexpected query failure...'']]
      else concat (map user_lines (rev (sort_key userid (users_tbl (db w))))))"
proof -
  let ?us = "rev (sort_key userid (users_tbl (db w)))"
  have e: "?us = [] \<longleftrightarrow> users_tbl (db w) = []"
    by (metis rev_is_Nil_conv set_sort set_empty)
  have l: "for_range [0..<length ?us] (users_body (PTuple (map user_tuple ?us))) v =
             (Inr (), v\<lparr>stdout := stdout v @ concat (map user_lines ?us)\<rparr>)" for v
    using for_range_prints [of ?us "users_body (PTuple (map user_tuple ?us))" user_lines 0 v]
      users_body_prints [of _ ?us] by simp
  show ?thesis
    using e l by (simp add: users_def run_defs select_rows_def del: length_rev length_sort)
qed

lemma assets_output:
  "stdout (snd (assets w)) = stdout w @
     (if call_fails w then [[PStr ''Database operation failed...'']]
      else if assets_tbl (db w) = [] then [[PStr ''Unexpected query failure...'']]
      else concat (map asset_lines (rev (sort_key assetid (assets_tbl (db w))))))"
proof -
  let ?rs = "rev (sort_key assetid (assets_tbl (db w)))"
  have e: "?rs = [] \<longleftrightarrow> assets_tbl (db w) = []"
    by (metis rev_is_Nil_conv set_sort set_empty)
  have l: "for_range [0..<length ?rs] (assets_body (PTuple (map asset_tuple ?rs))) v =
             (Inr (), v\<lparr>stdout := stdout v @ concat (map asset_lines ?rs)\<rparr>)" for v
    using for_range_prints [of ?rs "assets_body (PTuple (map asset_tuple ?rs))" asset_lines 0 v]
      assets_body_prints [of _ ?rs] by simp
  show ?thesis
    using e l by (simp add: assets_def run_defs select_rows_def del: length_rev length_sort)
qed

text \<open>
  The two inserts keep the identifiers of a table distinct: a new row takes the counter
  of its table, which is above every identifier in use.
\<close>

definition keys_ok :: "database \<Rightarrow> bool" where
  "keys_ok d =
     (distinct (map userid (users_tbl d)) \<and> (\<forall>u \<in> set (users_tbl d). userid u < users_auto d)
      \<and> distinct (map assetid (assets_tbl d))
      \<and> (\<forall>a \<in> set (assets_tbl d). assetid a < assets_auto d))"

lemma apply_action_keys_ok:
  "apply_action d sql ps = Some (n, d') \<Longrightarrow> keys_ok d \<Longrightarrow> keys_ok d'"
proof -
  assume a: "apply_action d sql ps = Some (n, d')" and k: "keys_ok d"
  from k have u: "\<And>u. u \<in> set (users_tbl d) \<Longrightarrow> userid u < users_auto d"
    and v: "\<And>x. x \<in> set (assets_tbl d) \<Longrightarrow> assetid x < assets_auto d"
    and du: "distinct (map userid (users_tbl d))" and da: "distinct (map assetid (assets_tbl d))"
    by (simp_all add: keys_ok_def)
  have nu: "users_auto d \<notin> userid ` set (users_tbl d)" using u by fastforce
  have na: "assets_auto d \<notin> assetid ` set (assets_tbl d)" using v by fastforce
  have lu: "\<And>u. u \<in> set (users_tbl d) \<Longrightarrow> userid u \<le> users_auto d"
    using u by fastforce
  have la: "\<And>x. x \<in> set (assets_tbl d) \<Longrightarrow> assetid x \<le> assets_auto d"
    using v by fastforce
  from a show "keys_ok d'"
    by (cases sql)
       (auto simp: apply_action_def keys_ok_def nu na lu la du da u v
             split: list.splits pyval.splits option.splits)
qed

text \<open>
  C6. In a database whose identifiers are distinct within each table, the user
  identifiers \<open>users\<close> prints are in strictly descending order, and so are the asset
  identifiers \<open>assets\<close> prints; when the query executes they are the identifiers of all
  the rows of the table.
\<close>

theorem listings_descend:
  assumes "distinct (map userid (users_tbl (db w)))"
    and "distinct (map assetid (assets_tbl (db w)))"
  shows "sorted_wrt (>) (printed_ids ''User id:'' (drop (length (stdout w)) (stdout (snd (users w)))))
       \<and> sorted_wrt (>) (printed_ids ''Asset id:'' (drop (length (stdout w)) (stdout (snd (assets w)))))
       \<and> (\<not> call_fails w \<longrightarrow>
            printed_ids ''User id:'' (drop (length (stdout w)) (stdout (snd (users w))))
              = map userid (rev (sort_key userid (users_tbl (db w))))
          \<and> printed_ids ''Asset id:'' (drop (length (stdout w)) (stdout (snd (assets w))))
              = map assetid (rev (sort_key assetid (assets_tbl (db w)))))"
proof -
  have n: "printed_ids l [[PStr m]] = []" for l m
    by (simp add: printed_ids_def)
  show ?thesis
    using desc_strict [OF assms(1)] desc_strict [OF assms(2)]
    by (simp add: users_output assets_output printed_user_ids printed_asset_ids n)
qed

theorem listings_descend_witness:
  "printed_ids ''User id:'' (stdout (snd (users (demo_world [] [])))) = [2, 1]
   \<and> printed_ids ''Asset id:'' (stdout (snd (assets (demo_world [] [])))) = [1002, 1001]
   \<and> sorted_wrt (>) (printed_ids ''User id:'' (stdout (snd (users (demo_world [] [])))))
   \<and> sorted_wrt (>) (printed_ids ''Asset id:'' (stdout (snd (assets (demo_world [] [])))))"
  using listings_descend [of "demo_world [] []"]
  by (simp add: demo_world_def demo_db_def call_fails_def)

subsection \<open>The command dispatcher\<close>

text \<open>
  The point of the program where a command is awaited: \<^verbatim>\<open>prompt()\<close>, then the loop
  entered with the command read. It is where the script enters the loop, and where
  every turn of the loop comes back to.
\<close>

definition awaiting_command :: "string \<Rightarrow> string \<Rightarrow> unit proc" where
  "awaiting_command bucketname endpoint = andthen prompt (main_loop bucketname endpoint)"

text \<open>The ten lines \<open>prompt\<close> prints.\<close>

definition menu :: "pyval list list" where
  "menu =
     [[], [PStr ''>> Enter a command:''], [PStr ''   0 => end''], [PStr ''   1 => stats''],
      [PStr ''   2 => users''], [PStr ''   3 => assets''], [PStr ''   4 => download''],
      [PStr ''   5 => download and display''], [PStr ''   6 => upload''],
      [PStr ''   7 => add user'']]"

lemma prompt_run:
  "prompt w =
     (case stdin w of
        [] \<Rightarrow> (Inl (Raise EOFError), w\<lparr>stdout := stdout w @ menu\<rparr>)
      | l # ls \<Rightarrow>
          (case py_int l of
             None \<Rightarrow> (Inl (Raise ValueError), w\<lparr>stdout := stdout w @ menu, stdin := ls\<rparr>)
           | Some c \<Rightarrow> (Inr c, w\<lparr>stdout := stdout w @ menu, stdin := ls\<rparr>)))"
  by (simp add: prompt_def next_do_def andthen_def print_def input_def int_of_str_def ret_def
      raise_def menu_def split: list.splits option.splits)

lemma main_loop_step:
  "main_loop b e cmd w =
     (if cmd \<noteq> 0
      then (case dispatch b e cmd w of
              (Inl s, w1) \<Rightarrow> (Inl s, w1)
            | (Inr _, w1) \<Rightarrow> awaiting_command b e w1)
      else (Inr (), w))"
  by (subst main_loop.simps)
     (simp add: awaiting_command_def andthen_def split: prod.splits sum.splits)

lemma awaiting_unfold:
  "awaiting_command b e w =
     (case prompt w of (Inl s, w') \<Rightarrow> (Inl s, w') | (Inr c, w') \<Rightarrow> main_loop b e c w')"
  by (simp add: awaiting_command_def andthen_def)

text \<open>
  C7. The dispatcher as a machine with the states awaiting-command, running-handler and
  terminated. When the command read is 0 the loop ends, in the world the prompt left.
  When it is one of 1 to 7, the handler of that number runs (\<open>stats\<close>, \<open>users\<close>,
  \<open>assets\<close>, \<open>download\<close> without and with display, \<open>upload\<close>, \<open>adduser\<close>), and when
  the handler completes the program awaits a command again, in the world the handler
  left; a handler that stops the process stops the loop. Any other integer only adds
  the line \<^verbatim>\<open>** Unknown command, try again...\<close> to the output, and the program awaits a
  command again: bucket, database, files and the record of calls are as they were.
\<close>

theorem dispatcher_steps:
  "(fst (prompt w) = Inr 0 \<longrightarrow> awaiting_command b e w = (Inr (), snd (prompt w)))
   \<and> (fst (prompt w) = Inr c \<and> 1 \<le> c \<and> c \<le> 7 \<longrightarrow>
        awaiting_command b e w =
          (case dispatch b e c (snd (prompt w)) of
             (Inl s, w1) \<Rightarrow> (Inl s, w1)
           | (Inr _, w1) \<Rightarrow> awaiting_command b e w1))
   \<and> dispatch b e 1 = stats b e \<and> dispatch b e 2 = users \<and> dispatch b e 3 = assets
   \<and> dispatch b e 4 = download False \<and> dispatch b e 5 = download True
   \<and> dispatch b e 6 = upload \<and> dispatch b e 7 = adduser
   \<and> (fst (prompt w) = Inr c \<and> (c < 0 \<or> 7 < c) \<longrightarrow>
        dispatch b e c (snd (prompt w)) =
          (Inr (), (snd (prompt w))
                     \<lparr>stdout := stdout (snd (prompt w)) @
                                  [[PStr ''** Unknown command, try again...'']]\<rparr>)
        \<and> awaiting_command b e w =
            awaiting_command b e
              ((snd (prompt w))
                 \<lparr>stdout := stdout (snd (prompt w)) @
                              [[PStr ''** Unknown command, try again...'']]\<rparr>))"
proof (intro conjI impI)
  assume "fst (prompt w) = Inr 0"
  then show "awaiting_command b e w = (Inr (), snd (prompt w))"
    by (cases "prompt w") (simp add: awaiting_unfold [of b e w] main_loop_step)
next
  assume "fst (prompt w) = Inr c \<and> 1 \<le> c \<and> c \<le> 7"
  then show "awaiting_command b e w =
          (case dispatch b e c (snd (prompt w)) of
             (Inl s, w1) \<Rightarrow> (Inl s, w1)
           | (Inr _, w1) \<Rightarrow> awaiting_command b e w1)"
    by (cases "prompt w")
       (simp add: awaiting_unfold [of b e w] main_loop_step)
next
  assume a: "fst (prompt w) = Inr c \<and> (c < 0 \<or> 7 < c)"
  then show d: "dispatch b e c (snd (prompt w)) =
          (Inr (), (snd (prompt w))
                     \<lparr>stdout := stdout (snd (prompt w)) @
                                  [[PStr ''** Unknown command, try again...'']]\<rparr>)"
    by (auto simp: dispatch_def print_def)
  from a have "c \<noteq> 0" by auto
  with a d show "awaiting_command b e w =
            awaiting_command b e
              ((snd (prompt w))
                 \<lparr>stdout := stdout (snd (prompt w)) @
                              [[PStr ''** Unknown command, try again...'']]\<rparr>)"
    by (cases "prompt w")
       (simp add: awaiting_unfold [of b e w] main_loop_step)
qed (simp_all add: dispatch_def)


lemmas int_defs = py_int_def strip_def is_space_def py_nat_def digit_of_def

theorem dispatcher_steps_witness:
  "fst (awaiting_command ''b'' ''e'' (demo_world [''9'', ''4'', ''7'', ''0''] [])) = Inr ()
   \<and> calls (snd (awaiting_command ''b'' ''e'' (demo_world [''9'', ''4'', ''7'', ''0''] [])))
        = [DbCall AssetById [PStr ''7'']]
   \<and> stdin (snd (awaiting_command ''b'' ''e'' (demo_world [''9'', ''4'', ''7'', ''0''] []))) = []"
proof -
  let ?w0 = "demo_world [''9'', ''4'', ''7'', ''0''] []"
  let ?w1 = "(snd (prompt ?w0))\<lparr>stdout := stdout (snd (prompt ?w0)) @
                              [[PStr ''** Unknown command, try again...'']]\<rparr>"
  let ?w2 = "snd (download False (snd (prompt ?w1)))"
  have p0: "fst (prompt ?w0) = Inr 9 \<and> ((9::int) < 0 \<or> (7::int) < 9)"
    by (simp add: prompt_run demo_world_def int_defs)
  have p1: "fst (prompt ?w1) = Inr 4 \<and> (1::int) \<le> 4 \<and> (4::int) \<le> 7"
    by (simp add: prompt_run demo_world_def int_defs)
  have d: "fst (download False (snd (prompt ?w1))) = Inr ()"
    by (simp add: prompt_run demo_world_def int_defs download_def run_defs select_rows_def
        demo_db_def decimal_key_def)
  have p2: "fst (prompt ?w2) = Inr 0"
    by (simp add: prompt_run demo_world_def int_defs download_def run_defs select_rows_def
        demo_db_def decimal_key_def)
  from dispatcher_steps [of ?w0 "''b''" "''e''" 9] p0
  have s0: "awaiting_command ''b'' ''e'' ?w0 = awaiting_command ''b'' ''e'' ?w1" by blast
  from dispatcher_steps [of ?w1 "''b''" "''e''" 4] p1
  have "awaiting_command ''b'' ''e'' ?w1 =
          (case dispatch ''b'' ''e'' 4 (snd (prompt ?w1)) of
             (Inl s, w1) \<Rightarrow> (Inl s, w1)
           | (Inr _, w1) \<Rightarrow> awaiting_command ''b'' ''e'' w1)"
    and "dispatch ''b'' ''e'' 4 = download False" by blast+
  with d have s1: "awaiting_command ''b'' ''e'' ?w1 = awaiting_command ''b'' ''e'' ?w2"
    by (cases "download False (snd (prompt ?w1))") simp
  from dispatcher_steps [of ?w2 "''b''" "''e''" 0] p2
  have s2: "awaiting_command ''b'' ''e'' ?w2 = (Inr (), snd (prompt ?w2))" by blast
  show ?thesis
    unfolding s0 s1 s2
    by (simp add: prompt_run demo_world_def int_defs download_def run_defs select_rows_def
        demo_db_def decimal_key_def)
qed

text \<open>
  C8. A line at the command prompt that \<^verbatim>\<open>int()\<close> does not accept makes \<open>prompt\<close> raise
  \<^verbatim>\<open>ValueError\<close>: the process ends with that exception, at the first prompt and at any
  later one, having printed the menu and nothing about an unknown command. Whenever
  \<open>prompt\<close> does return a command, the line read was an integer; so the branch for
  unknown commands is reached with integers only.
\<close>

theorem prompt_rejects_non_integer:
  "(stdin w = l # rest \<and> py_int l = None \<longrightarrow>
      prompt w = (Inl (Raise ValueError), w\<lparr>stdout := stdout w @ menu, stdin := rest\<rparr>)
    \<and> main_processing b e w =
        (Inl (Raise ValueError), w\<lparr>stdout := stdout w @ menu, stdin := rest\<rparr>))
   \<and> (c \<noteq> 0 \<and> dispatch b e c w = (Inr (), v) \<and> stdin v = l # rest \<and> py_int l = None \<longrightarrow>
        main_loop b e c w =
          (Inl (Raise ValueError), v\<lparr>stdout := stdout v @ menu, stdin := rest\<rparr>))
   \<and> (fst (prompt w) = Inr c \<longrightarrow> (\<exists>l rest. stdin w = l # rest \<and> py_int l = Some c))"
proof (intro conjI impI)
  assume a: "stdin w = l # rest \<and> py_int l = None"
  then show p: "prompt w =
      (Inl (Raise ValueError), w\<lparr>stdout := stdout w @ menu, stdin := rest\<rparr>)"
    by (simp add: prompt_run)
  then show "main_processing b e w =
      (Inl (Raise ValueError), w\<lparr>stdout := stdout w @ menu, stdin := rest\<rparr>)"
    by (simp add: main_processing_def andthen_def)
next
  assume "c \<noteq> 0 \<and> dispatch b e c w = (Inr (), v) \<and> stdin v = l # rest \<and> py_int l = None"
  then show "main_loop b e c w =
      (Inl (Raise ValueError), v\<lparr>stdout := stdout v @ menu, stdin := rest\<rparr>)"
    by (simp add: main_loop_step awaiting_unfold prompt_run)
next
  assume "fst (prompt w) = Inr c"
  then show "\<exists>l rest. stdin w = l # rest \<and> py_int l = Some c"
    by (auto simp: prompt_run split: list.splits option.splits)
qed

theorem prompt_rejects_non_integer_witness:
  "fst (main_processing ''b'' ''e'' (demo_world [''abc'', ''0''] [])) = Inl (Raise ValueError)
   \<and> stdout (snd (main_processing ''b'' ''e'' (demo_world [''abc'', ''0''] []))) = menu
   \<and> fst (main_loop ''b'' ''e'' 9 (demo_world [''4.0'', ''0''] [])) = Inl (Raise ValueError)
   \<and> py_int ''7'' = Some 7"
  using
    prompt_rejects_non_integer
      [where w = "demo_world [''abc'', ''0''] []" and l = "''abc''" and rest = "[''0'']"
         and b = "''b''" and e = "''e''" and c = 0]
    prompt_rejects_non_integer
      [where w = "demo_world [''4.0'', ''0''] []" and l = "''4.0''" and rest = "[''0'']"
         and b = "''b''" and e = "''e''" and c = 9
         and v = "(demo_world [''4.0'', ''0''] [])
                    \<lparr>stdout := [[PStr ''** Unknown command, try again...'']]\<rparr>"]
    prompt_rejects_non_integer
      [where w = "demo_world [''7''] []" and c = 7]
  by (simp add: demo_world_def int_defs dispatch_def print_def prompt_run)

subsection \<open>Not found and failed\<close>

text \<open>
  C1, as stated, fails on \<open>upload\<close>: the lookup of user \<^verbatim>\<open>7\<close> returns the empty tuple in
  one world and \<^verbatim>\<open>None\<close> in the other, and \<open>upload\<close> prints the same lines in both,
  ending with \<^verbatim>\<open>No such user...\<close>.
\<close>

theorem upload_same_message_counterexample:
  "fst (retrieve_one_row UserById [PStr ''7''] (demo_world [] [])) = Inr (PTuple [])
   \<and> fst (retrieve_one_row UserById [PStr ''7''] (demo_world [] [True])) = Inr PNone
   \<and> stdout (snd (upload (demo_world [''dog.jpg'', ''7''] [])))
       = stdout (snd (upload (demo_world [''dog.jpg'', ''7''] [True])))
   \<and> last (stdout (snd (upload (demo_world [''dog.jpg'', ''7''] []))))
       = [PStr ''No such user...'']"
  by (simp add: upload_def run_defs select_rows_def demo_world_def demo_db_def decimal_key_def
      py_nat_def digit_of_def)

text \<open>
  C1, amended. \<open>download\<close> prints \<^verbatim>\<open>No such asset...\<close> when its lookup finds no row and
  \<^verbatim>\<open>Database operation failed...\<close> when the lookup fails; \<open>users\<close> and \<open>assets\<close> print
  \<^verbatim>\<open>Unexpected query failure...\<close> on an empty result and \<^verbatim>\<open>Database operation failed...\<close>
  on a failure, which \<open>stats\<close> prints on a failure too; \<open>upload\<close> prints
  \<^verbatim>\<open>No such user...\<close> in both cases and stops the process.
\<close>

theorem not_found_messages:
  "(stdin w = a # rest \<longrightarrow>
      (call_fails w \<longrightarrow>
         last (stdout (snd (download d w))) = [PStr ''Database operation failed...''])
    \<and> (\<not> call_fails w
         \<and> (\<forall>x \<in> set (assets_tbl (db w)). key_of (db w) a \<noteq> Some (assetid x)) \<longrightarrow>
         last (stdout (snd (download d w))) = [PStr ''No such asset...'']))
   \<and> (call_fails w \<longrightarrow>
         last (stdout (snd (users w))) = [PStr ''Database operation failed...'']
       \<and> last (stdout (snd (assets w))) = [PStr ''Database operation failed...'']
       \<and> last (stdout (snd (stats b e w))) = [PStr ''Database operation failed...''])
   \<and> (\<not> call_fails w \<and> users_tbl (db w) = [] \<longrightarrow>
         last (stdout (snd (users w))) = [PStr ''Unexpected query failure...''])
   \<and> (\<not> call_fails w \<and> assets_tbl (db w) = [] \<longrightarrow>
         last (stdout (snd (assets w))) = [PStr ''Unexpected query failure...''])
   \<and> (stdin w = s # i # rest' \<and> files w s \<noteq> None
       \<and> (call_fails w
           \<or> (\<forall>u \<in> set (users_tbl (db w)). key_of (db w) i \<noteq> Some (userid u))) \<longrightarrow>
         fst (upload w) = Inl Abort
       \<and> last (stdout (snd (upload w))) = [PStr ''No such user...''])"
proof (intro conjI impI)
  assume "stdin w = a # rest" and "call_fails w"
  then show "last (stdout (snd (download d w))) = [PStr ''Database operation failed...'']"
    by (simp add: download_def run_defs)
next
  assume 1: "stdin w = a # rest"
    and 2: "\<not> call_fails w
       \<and> (\<forall>x \<in> set (assets_tbl (db w)). key_of (db w) a \<noteq> Some (assetid x))"
  then have "filter (\<lambda>x. key_of (db w) a = Some (assetid x)) (assets_tbl (db w)) = []"
    by (auto simp: filter_empty_conv)
  with 1 2 show "last (stdout (snd (download d w))) = [PStr ''No such asset...'']"
    by (simp add: download_def run_defs select_rows_def)
next
  assume "call_fails w"
  then show "last (stdout (snd (users w))) = [PStr ''Database operation failed...'']"
    by (simp add: users_output)
next
  assume "call_fails w"
  then show "last (stdout (snd (assets w))) = [PStr ''Database operation failed...'']"
    by (simp add: assets_output)
next
  assume "call_fails w"
  then show "last (stdout (snd (stats b e w))) = [PStr ''Database operation failed...'']"
    by (simp add: stats_def run_defs)
next
  assume "\<not> call_fails w \<and> users_tbl (db w) = []"
  then show "last (stdout (snd (users w))) = [PStr ''Unexpected query failure...'']"
    by (simp add: users_output)
next
  assume "\<not> call_fails w \<and> assets_tbl (db w) = []"
  then show "last (stdout (snd (assets w))) = [PStr ''Unexpected query failure...'']"
    by (simp add: assets_output)
next
  assume a: "stdin w = s # i # rest' \<and> files w s \<noteq> None
       \<and> (call_fails w
           \<or> (\<forall>u \<in> set (users_tbl (db w)). key_of (db w) i \<noteq> Some (userid u)))"
  then have "call_fails w
      \<or> filter (\<lambda>u. key_of (db w) i = Some (userid u)) (users_tbl (db w)) = []"
    by (auto simp: filter_empty_conv)
  with a show "fst (upload w) = Inl Abort"
    by (auto simp: upload_def run_defs select_rows_def)
  from a \<open>call_fails w
      \<or> filter (\<lambda>u. key_of (db w) i = Some (userid u)) (users_tbl (db w)) = []\<close>
  show "last (stdout (snd (upload w))) = [PStr ''No such user...'']"
    by (auto simp: upload_def run_defs select_rows_def)
qed

theorem not_found_messages_witness:
  "last (stdout (snd (download False (demo_world [''7''] [True]))))
     = [PStr ''Database operation failed...'']
   \<and> last (stdout (snd (download False (demo_world [''7''] []))))
     = [PStr ''No such asset...'']
   \<and> last (stdout (snd (users (demo_world [] [True]))))
     = [PStr ''Database operation failed...'']
   \<and> last (stdout (snd (users ((demo_world [] [])\<lparr>db := demo_db\<lparr>users_tbl := []\<rparr>\<rparr>))))
     = [PStr ''Unexpected query failure...'']
   \<and> last (stdout (snd (assets ((demo_world [] [])\<lparr>db := demo_db\<lparr>assets_tbl := []\<rparr>\<rparr>))))
     = [PStr ''Unexpected query failure...'']
   \<and> fst (upload (demo_world [''dog.jpg'', ''7''] [True])) = Inl Abort
   \<and> last (stdout (snd (upload (demo_world [''dog.jpg'', ''7''] [True]))))
     = [PStr ''No such user...'']"
  using
    not_found_messages
      [where w = "demo_world [''7''] [True]" and a = "''7''" and rest = "[]" and d = False]
    not_found_messages
      [where w = "demo_world [''7''] []" and a = "''7''" and rest = "[]" and d = False]
    not_found_messages [where w = "demo_world [] [True]"]
    not_found_messages [where w = "(demo_world [] [])\<lparr>db := demo_db\<lparr>users_tbl := []\<rparr>\<rparr>"]
    not_found_messages [where w = "(demo_world [] [])\<lparr>db := demo_db\<lparr>assets_tbl := []\<rparr>\<rparr>"]
    not_found_messages
      [where w = "demo_world [''dog.jpg'', ''7''] [True]" and s = "''dog.jpg''" and i = "''7''"
         and rest' = "[]"]
  by (simp add: demo_world_def demo_db_def decimal_key_def py_nat_def digit_of_def
      call_fails_def)

end
